theory Spec2Isabelle
  imports Complex_Main "HOL-Library.Multiset" "HOL-Library.Product_Lexorder"
begin

text \<open>
  A shallow embedding of the search and normalization pipeline of the flight-search
  application: the environment resolver, the retry executor, the mock-fallback wrapper,
  the health prober, the flight normalizer, the price range and the filter and sort
  engine, each translated from its TypeScript source, followed by the properties of the
  specification that concern them. The definitions come first, the theorems after.
\<close>

section \<open>JavaScript numbers\<close>

text \<open>
  A JavaScript \<^verbatim>\<open>number\<close> is NaN, one of the two infinities, or a finite value.
  Finite values are kept as exact rationals: IEEE rounding and the sign of zero are not
  represented (\<^verbatim>\<open>-0\<close> and \<^verbatim>\<open>+0\<close> coincide, as they do under every comparison
  the sources make).
\<close>

datatype jsnum = NaN | NInf | Fin rat | PInf

fun js_lt :: "jsnum \<Rightarrow> jsnum \<Rightarrow> bool" where
  "js_lt (Fin a) (Fin b) = (a < b)"
| "js_lt NInf (Fin b) = True"
| "js_lt NInf PInf = True"
| "js_lt (Fin a) PInf = True"
| "js_lt _ _ = False"

definition js_gt :: "jsnum \<Rightarrow> jsnum \<Rightarrow> bool" where
  "js_gt a b = js_lt b a"

text \<open>\<^verbatim>\<open>a <= b\<close>: false as soon as one side is NaN.\<close>

definition js_le :: "jsnum \<Rightarrow> jsnum \<Rightarrow> bool" where
  "js_le a b = (a \<noteq> NaN \<and> b \<noteq> NaN \<and> (js_lt a b \<or> a = b))"

definition js_ge :: "jsnum \<Rightarrow> jsnum \<Rightarrow> bool" where
  "js_ge a b = js_le b a"

text \<open>\<^verbatim>\<open>a === b\<close> on numbers: NaN equals nothing, itself included.\<close>

definition js_eq :: "jsnum \<Rightarrow> jsnum \<Rightarrow> bool" where
  "js_eq a b = (a \<noteq> NaN \<and> a = b)"

text \<open>Truthiness of a number: everything but zero and NaN.\<close>

definition truthy_num :: "jsnum \<Rightarrow> bool" where
  "truthy_num n = (n \<noteq> NaN \<and> n \<noteq> Fin 0)"

fun js_neg :: "jsnum \<Rightarrow> jsnum" where
  "js_neg NaN = NaN"
| "js_neg NInf = PInf"
| "js_neg (Fin a) = Fin (- a)"
| "js_neg PInf = NInf"

fun js_add :: "jsnum \<Rightarrow> jsnum \<Rightarrow> jsnum" where
  "js_add (Fin a) (Fin b) = Fin (a + b)"
| "js_add NaN _ = NaN"
| "js_add _ NaN = NaN"
| "js_add PInf NInf = NaN"
| "js_add NInf PInf = NaN"
| "js_add PInf _ = PInf"
| "js_add _ PInf = PInf"
| "js_add NInf _ = NInf"
| "js_add _ NInf = NInf"

definition js_sub :: "jsnum \<Rightarrow> jsnum \<Rightarrow> jsnum" where
  "js_sub a b = js_add a (js_neg b)"

text \<open>
  The sources multiply, divide and take remainders by positive literals only
  (60, 100, 24 * 60), so the second operand is a positive rational.
\<close>

fun js_times :: "jsnum \<Rightarrow> rat \<Rightarrow> jsnum" where
  "js_times (Fin a) c = Fin (a * c)"
| "js_times x c = x"

fun js_over :: "jsnum \<Rightarrow> rat \<Rightarrow> jsnum" where
  "js_over (Fin a) c = Fin (a / c)"
| "js_over x c = x"

text \<open>\<^verbatim>\<open>a % c\<close>: the remainder takes the sign of the dividend (truncated division).\<close>

definition trunc_rat :: "rat \<Rightarrow> int" where
  "trunc_rat q = (if 0 \<le> q then \<lfloor>q\<rfloor> else \<lceil>q\<rceil>)"

fun js_rem :: "jsnum \<Rightarrow> rat \<Rightarrow> jsnum" where
  "js_rem (Fin a) c = Fin (a - c * of_int (trunc_rat (a / c)))"
| "js_rem x c = NaN"

fun js_floor :: "jsnum \<Rightarrow> jsnum" where
  "js_floor (Fin a) = Fin (of_int \<lfloor>a\<rfloor>)"
| "js_floor x = x"

fun js_ceil :: "jsnum \<Rightarrow> jsnum" where
  "js_ceil (Fin a) = Fin (of_int \<lceil>a\<rceil>)"
| "js_ceil x = x"

text \<open>\<^verbatim>\<open>Math.max\<close> and \<^verbatim>\<open>Math.min\<close>: NaN as soon as one argument is NaN.\<close>

definition js_max2 :: "jsnum \<Rightarrow> jsnum \<Rightarrow> jsnum" where
  "js_max2 a b = (if a = NaN \<or> b = NaN then NaN else if js_lt a b then b else a)"

definition js_min2 :: "jsnum \<Rightarrow> jsnum \<Rightarrow> jsnum" where
  "js_min2 a b = (if a = NaN \<or> b = NaN then NaN else if js_lt b a then b else a)"

definition Math_max :: "jsnum list \<Rightarrow> jsnum" where
  "Math_max xs = foldl js_max2 NInf xs"

definition Math_min :: "jsnum list \<Rightarrow> jsnum" where
  "Math_min xs = foldl js_min2 PInf xs"

section \<open>JavaScript strings\<close>

text \<open>
  A string is a list of characters; a \<^typ>\<open>char\<close> stands for a code unit below 256.
  White space (for \<^verbatim>\<open>trim\<close>, \<^verbatim>\<open>Number\<close>, \<^verbatim>\<open>parseInt\<close>, \<^verbatim>\<open>parseFloat\<close> and the
  regular-expression class \<^verbatim>\<open>\s\<close>) is TAB, LF, VT, FF, CR, SPACE and NBSP; the white-space
  characters above code 255 have no counterpart here.
\<close>

definition is_space :: "char \<Rightarrow> bool" where
  "is_space c = (c \<in> set [CHR 0x09, CHR 0x0A, CHR 0x0B, CHR 0x0C, CHR 0x0D, CHR 0x20, CHR 0xA0])"

definition is_digit :: "char \<Rightarrow> bool" where
  "is_digit c = (48 \<le> (of_char c :: nat) \<and> (of_char c :: nat) \<le> 57)"

definition digit_val :: "char \<Rightarrow> nat" where
  "digit_val c = of_char c - 48"

definition dec_val :: "string \<Rightarrow> nat" where
  "dec_val ds = foldl (\<lambda>a c. 10 * a + digit_val c) 0 ds"

definition trim_start :: "string \<Rightarrow> string" where
  "trim_start s = dropWhile is_space s"

definition trim :: "string \<Rightarrow> string" where
  "trim s = rev (dropWhile is_space (rev (dropWhile is_space s)))"

text \<open>\<^verbatim>\<open>s.includes(pat)\<close>: \<^verbatim>\<open>pat\<close> occurs somewhere in \<^verbatim>\<open>s\<close>.\<close>

fun includes_str :: "string \<Rightarrow> string \<Rightarrow> bool" where
  "includes_str [] pat = (pat = [])"
| "includes_str (c # cs) pat = (take (length pat) (c # cs) = pat \<or> includes_str cs pat)"

text \<open>\<^verbatim>\<open>s.split(sep)\<close> for a one-character separator; the empty string gives one empty piece.\<close>

fun split_on :: "char \<Rightarrow> string \<Rightarrow> string list" where
  "split_on sep [] = ['''']"
| "split_on sep (c # cs) =
     (if c = sep then [] # split_on sep cs
      else (case split_on sep cs of p # ps \<Rightarrow> (c # p) # ps | [] \<Rightarrow> [c # '''']))"

subsection \<open>Numbers from strings\<close>

definition pow10 :: "int \<Rightarrow> rat" where
  "pow10 e = (if 0 \<le> e then 10 ^ nat e else 1 / 10 ^ nat (- e))"

definition strip_sign :: "string \<Rightarrow> bool \<times> string" where
  "strip_sign s =
     (case s of
        c # r \<Rightarrow> if c = CHR ''+'' then (False, r) else if c = CHR ''-'' then (True, r) else (False, s)
      | [] \<Rightarrow> (False, s))"

text \<open>
  The exponent part after a mantissa: \<^verbatim>\<open>e\<close> or \<^verbatim>\<open>E\<close>, an optional sign and at least one
  digit. Without a digit nothing is consumed.
\<close>

definition parse_exponent :: "string \<Rightarrow> int \<times> string" where
  "parse_exponent s =
     (case s of
        c # r \<Rightarrow>
          if c = CHR ''e'' \<or> c = CHR ''E'' then
            (let (neg, r1) = strip_sign r; ds = takeWhile is_digit r1
             in if ds = [] then (0, s)
                else ((if neg then - int (dec_val ds) else int (dec_val ds)), dropWhile is_digit r1))
          else (0, s)
      | [] \<Rightarrow> (0, s))"

text \<open>
  The longest prefix that is an unsigned decimal literal (digits, an optional fraction,
  an optional exponent; at least one digit before or after the point), with its value and
  the unread rest.
\<close>

definition parse_unsigned_decimal :: "string \<Rightarrow> (rat \<times> string) option" where
  "parse_unsigned_decimal s =
     (let ip = takeWhile is_digit s;
          r1 = dropWhile is_digit s;
          (fp, r2) = (case r1 of
                        c # r \<Rightarrow> if c = CHR ''.'' then (takeWhile is_digit r, dropWhile is_digit r)
                                 else ([], r1)
                      | [] \<Rightarrow> ([], r1))
      in if ip = [] \<and> fp = [] then None
         else (let (e, r3) = parse_exponent r2
               in Some (of_nat (dec_val (ip @ fp)) / 10 ^ length fp * pow10 e, r3)))"

definition parse_signed :: "string \<Rightarrow> (jsnum \<times> string) option" where
  "parse_signed s =
     (let (neg, r) = strip_sign s
      in if take 8 r = ''Infinity'' then Some (if neg then NInf else PInf, drop 8 r)
         else (case parse_unsigned_decimal r of
                 None \<Rightarrow> None
               | Some (q, r1) \<Rightarrow> Some (Fin (if neg then - q else q), r1)))"

text \<open>\<^verbatim>\<open>parseFloat(s)\<close>: leading white space is skipped, trailing text is ignored.\<close>

definition parseFloat :: "string \<Rightarrow> jsnum" where
  "parseFloat s = (case parse_signed (trim_start s) of None \<Rightarrow> NaN | Some (v, r) \<Rightarrow> v)"

definition digit_of :: "char \<Rightarrow> nat option" where
  "digit_of c =
     (let n = (of_char c :: nat)
      in if 48 \<le> n \<and> n \<le> 57 then Some (n - 48)
         else if 97 \<le> n \<and> n \<le> 122 then Some (n - 87)
         else if 65 \<le> n \<and> n \<le> 90 then Some (n - 55)
         else None)"

definition radix_ok :: "nat \<Rightarrow> char \<Rightarrow> bool" where
  "radix_ok r c = (case digit_of c of Some v \<Rightarrow> v < r | None \<Rightarrow> False)"

definition radix_val :: "nat \<Rightarrow> string \<Rightarrow> nat" where
  "radix_val r ds = foldl (\<lambda>a c. r * a + (case digit_of c of Some v \<Rightarrow> v | None \<Rightarrow> 0)) 0 ds"

definition radix_literal :: "nat \<Rightarrow> string \<Rightarrow> jsnum" where
  "radix_literal r ds = (if ds \<noteq> [] \<and> list_all (radix_ok r) ds then Fin (of_nat (radix_val r ds)) else NaN)"

text \<open>
  \<^verbatim>\<open>Number(s)\<close> on a string: white space is trimmed at both ends, the empty string is 0,
  and the whole rest must be one numeric literal (signed decimal, signed Infinity, or an
  unsigned hexadecimal, octal or binary literal).
\<close>

definition Number_str :: "string \<Rightarrow> jsnum" where
  "Number_str s =
     (let t = trim s
      in if t = [] then Fin 0
         else if take 2 t = ''0x'' \<or> take 2 t = ''0X'' then radix_literal 16 (drop 2 t)
         else if take 2 t = ''0o'' \<or> take 2 t = ''0O'' then radix_literal 8 (drop 2 t)
         else if take 2 t = ''0b'' \<or> take 2 t = ''0B'' then radix_literal 2 (drop 2 t)
         else (case parse_signed t of
                 Some (v, r) \<Rightarrow> if r = [] then v else NaN
               | None \<Rightarrow> NaN))"

text \<open>
  \<^verbatim>\<open>parseInt(s)\<close> without a radix: leading white space and a sign are skipped, a
  \<^verbatim>\<open>0x\<close> prefix selects base 16, and the longest run of digits of the base is read.
\<close>

definition parseInt :: "string \<Rightarrow> jsnum" where
  "parseInt s =
     (let (neg, r) = strip_sign (trim_start s);
          (radix, r2) = (if take 2 r = ''0x'' \<or> take 2 r = ''0X'' then (16, drop 2 r) else (10, r));
          ds = takeWhile (radix_ok radix) r2
      in if ds = [] then NaN
         else Fin (if neg then - of_nat (radix_val radix ds) else of_nat (radix_val radix ds)))"

subsection \<open>Numbers to strings\<close>

text \<open>The decimal digit for a number below ten.\<close>

definition digit_char :: "nat \<Rightarrow> char" where
  "digit_char d = ''0123456789'' ! d"

fun show_nat :: "nat \<Rightarrow> string" where
  "show_nat n =
     (if n < 10 then [digit_char n]
      else show_nat (n div 10) @ [digit_char (n mod 10)])"

declare show_nat.simps [simp del]

text \<open>
  \<^verbatim>\<open>String(x)\<close> and \<^verbatim>\<open>`${x}`\<close> on a number. An integer below \<open>10\<^sup>2\<^sup>1\<close> in absolute value
  prints its decimal digits. What the engine prints for the other finite values (the
  shortest digits that read back as the same double) depends on the floating-point
  representation and is the parameter \<open>fmt\<close>.
\<close>

definition js_show :: "(rat \<Rightarrow> string) \<Rightarrow> jsnum \<Rightarrow> string" where
  "js_show fmt x =
     (case x of
        NaN \<Rightarrow> ''NaN''
      | NInf \<Rightarrow> ''-Infinity''
      | PInf \<Rightarrow> ''Infinity''
      | Fin q \<Rightarrow>
          if of_int \<lfloor>q\<rfloor> = q \<and> \<bar>q\<bar> < 10 ^ 21 then
            (if q < 0 then ''-'' @ show_nat (nat (- \<lfloor>q\<rfloor>)) else show_nat (nat \<lfloor>q\<rfloor>))
          else fmt q)"

section \<open>Environment Resolver (utils/envConfig.ts; apiStatus, in utils/formatDate.ts)\<close>

text \<open>
  \<^verbatim>\<open>RAPID_API_KEY = import.meta.env.VITE_RAPIDAPI_KEY || ''\<close> is a string fixed at build
  time; it is the parameter \<open>key\<close> of every function that reads it.
  \<^verbatim>\<open>isApiConfigured\<close> is \<^verbatim>\<open>!!RAPID_API_KEY\<close>: a string is truthy iff it is not empty.
\<close>

definition isApiConfigured :: "string \<Rightarrow> bool" where
  "isApiConfigured key = (key \<noteq> [])"

text \<open>\<^verbatim>\<open>isApiKeyConfigured\<close> is \<^verbatim>\<open>!!RAPID_API_KEY && RAPID_API_KEY.trim() !== ''\<close>.\<close>

definition isApiKeyConfigured :: "string \<Rightarrow> bool" where
  "isApiKeyConfigured key = (key \<noteq> [] \<and> trim key \<noteq> [])"

section \<open>Retry Executor (utils/apiRetry.ts)\<close>

text \<open>
  A thrown value is \<^verbatim>\<open>undefined\<close>, some other value that is not an \<^verbatim>\<open>Error\<close>, or an
  \<^verbatim>\<open>Error\<close> object: whether it is a \<^verbatim>\<open>TypeError\<close>, its name, its message, and its
  \<^verbatim>\<open>status\<close> property (\<open>None\<close>: no such property; \<open>Some None\<close>: the property is there
  and holds \<^verbatim>\<open>undefined\<close>).
\<close>

datatype thrown =
  Undefined
| NonError string
| Err bool string string "jsnum option option"

text \<open>
  \<^verbatim>\<open>RetryConfig\<close>: every field is optional and falls back to \<^verbatim>\<open>DEFAULT_CONFIG\<close>. The
  retry budget is an integer, the delays (milliseconds) are rationals.
\<close>

record RetryConfig =
  maxRetries :: "int option"
  baseDelay :: "rat option"
  maxDelay :: "rat option"
  retryableStatusCodes :: "jsnum list option"

definition DEFAULT_maxRetries :: int where
  "DEFAULT_maxRetries = 2"

definition DEFAULT_baseDelay :: rat where
  "DEFAULT_baseDelay = 1000"

definition DEFAULT_maxDelay :: rat where
  "DEFAULT_maxDelay = 10000"

definition DEFAULT_retryableStatusCodes :: "jsnum list" where
  "DEFAULT_retryableStatusCodes = [Fin 500, Fin 502, Fin 503, Fin 504]"

text \<open>The call \<^verbatim>\<open>apiRequestWithRetry(requestFn)\<close>: \<^verbatim>\<open>config = {}\<close>, every field absent.\<close>

definition no_config :: RetryConfig where
  "no_config = \<lparr>maxRetries = None, baseDelay = None, maxDelay = None, retryableStatusCodes = None\<rparr>"

definition isRetryableError :: "thrown \<Rightarrow> jsnum list \<Rightarrow> bool" where
  "isRetryableError error codes =
     (case error of
        Err is_type_error name msg st \<Rightarrow>
          if is_type_error \<and> includes_str msg ''fetch'' then True
          else (case st of
                  None \<Rightarrow> True
                | Some None \<Rightarrow> True
                | Some (Some status) \<Rightarrow>
                    if js_ge status (Fin 400) \<and> js_le status (Fin 403) then False
                    else if js_eq status (Fin 429) then False
                    else status \<in> set codes)
      | _ \<Rightarrow> True)"

text \<open>\<open>rnd\<close> is the value \<^verbatim>\<open>Math.random()\<close> returns, in \<open>[0, 1)\<close>.\<close>

definition calculateDelay :: "nat \<Rightarrow> rat \<Rightarrow> rat \<Rightarrow> rat \<Rightarrow> rat" where
  "calculateDelay attempt base_delay max_delay rnd =
     (let exponentialDelay = base_delay * 2 ^ attempt;
          jitter = rnd * (1 / 4) * exponentialDelay;
          delay = exponentialDelay + jitter
      in min delay max_delay)"

text \<open>
  The loop of \<^verbatim>\<open>apiRequestWithRetry\<close>. The request function acts on a state \<open>'s\<close> (the
  world it talks to) and either returns a value or throws. The loop carries the attempt
  number, \<^verbatim>\<open>lastError\<close>, and two observations of the run: how many times the request
  function has been invoked and the delays waited for. \<open>rnd k\<close> is the random number drawn
  at attempt \<open>k\<close>. The development-only log line is not modelled.
\<close>

function retry_loop ::
  "int \<Rightarrow> rat \<Rightarrow> rat \<Rightarrow> jsnum list \<Rightarrow> (nat \<Rightarrow> rat) \<Rightarrow> ('s \<Rightarrow> (thrown + 'a) \<times> 's) \<Rightarrow>
   nat \<Rightarrow> thrown \<Rightarrow> 's \<Rightarrow> nat \<Rightarrow> rat list \<Rightarrow> (thrown + 'a) \<times> 's \<times> nat \<times> rat list" where
  "retry_loop max_retries base_delay max_delay codes rnd requestFn attempt lastError s calls waits =
     (if int attempt \<le> max_retries then
        (case requestFn s of
           (Inr v, s1) \<Rightarrow> (Inr v, s1, calls + 1, waits)
         | (Inl error, s1) \<Rightarrow>
             if int attempt \<ge> max_retries then (Inl error, s1, calls + 1, waits)
             else if \<not> isRetryableError error codes then (Inl error, s1, calls + 1, waits)
             else retry_loop max_retries base_delay max_delay codes rnd requestFn (attempt + 1) error s1
                    (calls + 1) (waits @ [calculateDelay attempt base_delay max_delay (rnd attempt)]))
      else (Inl lastError, s, calls, waits))"
  by pat_completeness auto
termination
  by (relation "measure (\<lambda>(max_retries, base_delay, max_delay, codes, rnd, requestFn, attempt, rest).
        nat (max_retries + 1 - int attempt))") auto

declare retry_loop.simps [simp del]

definition apiRequestWithRetry ::
  "(nat \<Rightarrow> rat) \<Rightarrow> ('s \<Rightarrow> (thrown + 'a) \<times> 's) \<Rightarrow> RetryConfig \<Rightarrow> 's \<Rightarrow>
   (thrown + 'a) \<times> 's \<times> nat \<times> rat list" where
  "apiRequestWithRetry rnd requestFn config s =
     retry_loop
       (case maxRetries config of None \<Rightarrow> DEFAULT_maxRetries | Some n \<Rightarrow> n)
       (case baseDelay config of None \<Rightarrow> DEFAULT_baseDelay | Some d \<Rightarrow> d)
       (case maxDelay config of None \<Rightarrow> DEFAULT_maxDelay | Some d \<Rightarrow> d)
       (case retryableStatusCodes config of None \<Rightarrow> DEFAULT_retryableStatusCodes | Some cs \<Rightarrow> cs)
       rnd requestFn 0 Undefined s 0 []"

text \<open>The observations of a run.\<close>

definition outcome_of :: "(thrown + 'a) \<times> 's \<times> nat \<times> rat list \<Rightarrow> thrown + 'a" where
  "outcome_of r = fst r"

definition calls_of :: "(thrown + 'a) \<times> 's \<times> nat \<times> rat list \<Rightarrow> nat" where
  "calls_of r = fst (snd (snd r))"

section \<open>Mock-Fallback Wrapper (withMockFallback, in utils/calculatePriceRange.ts)\<close>

datatype call = ApiCall | MockCall

text \<open>
  \<^verbatim>\<open>withMockFallback(apiCall, getMockData, context)\<close>. Both functions act on the state and
  either return a value or throw (for \<^verbatim>\<open>getMockData\<close>, which may be asynchronous: throw or
  return a promise that rejects). The result carries the functions invoked, in order.
  \<^verbatim>\<open>context\<close> only labels the log lines and is left out.
\<close>

definition withMockFallback ::
  "string \<Rightarrow> ('s \<Rightarrow> (thrown + 'a) \<times> 's) \<Rightarrow> ('s \<Rightarrow> (thrown + 'a) \<times> 's) \<Rightarrow> 's \<Rightarrow>
   (thrown + 'a) \<times> 's \<times> call list" where
  "withMockFallback key apiCall getMockData s =
     (if key = [] then
        (case getMockData s of (r, s1) \<Rightarrow> (r, s1, [MockCall]))
      else
        (case apiCall s of
           (Inr result, s1) \<Rightarrow> (Inr result, s1, [ApiCall])
         | (Inl error, s1) \<Rightarrow>
             if (case error of Err ty name msg st \<Rightarrow> name = ''NoApiKeyError'' | _ \<Rightarrow> False) then
               (case getMockData s1 of (r, s2) \<Rightarrow> (r, s2, [ApiCall, MockCall]))
             else
               (case getMockData s1 of (r, s2) \<Rightarrow> (r, s2, [ApiCall, MockCall]))))"

section \<open>Health Prober (apiStatus, in utils/formatDate.ts)\<close>

datatype ApiConnectionStatus = Online | Offline | Mock

record ApiHealthResult =
  status :: ApiConnectionStatus
  message :: string
  timestamp :: int
  usingMockData :: bool
  apiKeyConfigured :: bool

definition CACHE_DURATION :: int where
  "CACHE_DURATION = 5 * 60 * 1000"

text \<open>\<open>now\<close> is what \<^verbatim>\<open>Date.now()\<close> returns inside \<^verbatim>\<open>isCacheValid\<close>.\<close>

definition isCacheValid :: "int \<Rightarrow> ApiHealthResult \<Rightarrow> bool" where
  "isCacheValid now cached = (now - timestamp cached < CACHE_DURATION)"

text \<open>
  What the probe request does when it is made: a response with its HTTP status
  (\<^verbatim>\<open>response.ok\<close> is a status from 200 to 299), or a failure (network error, abort after
  the 5 second timeout, or any other exception inside the \<^verbatim>\<open>try\<close> block).
\<close>

datatype probe = Response nat | Failed

text \<open>
  \<^verbatim>\<open>checkApiHealth(skipCache)\<close>. The module variable \<^verbatim>\<open>cachedHealthCheck\<close> is passed in and
  returned. \<open>t0\<close> is the first reading of the clock (the \<^verbatim>\<open>timestamp\<close> of a fresh result),
  \<open>t1\<close> the reading inside \<^verbatim>\<open>isCacheValid\<close>, \<open>pr\<close> what the probe would do. The third
  component of the result tells whether the probe request was made. \<open>freshHealthCheck\<close> is
  the part of the function after the cache test.
\<close>

definition freshHealthCheck ::
  "string \<Rightarrow> int \<Rightarrow> probe \<Rightarrow> ApiHealthResult option \<Rightarrow>
   ApiHealthResult \<times> ApiHealthResult option \<times> bool" where
  "freshHealthCheck key t0 pr cachedHealthCheck =
     (if key = [] \<or> trim key = [] then
        (let result = \<lparr>status = Mock, message = ''API key not configured - using mock data'',
                        timestamp = t0, usingMockData = True, apiKeyConfigured = False\<rparr>
         in (result, Some result, False))
      else
        (case pr of
           Response st \<Rightarrow>
             if 200 \<le> st \<and> st \<le> 299 then
               (let result = \<lparr>status = Online, message = ''Connected to RapidAPI'',
                               timestamp = t0, usingMockData = False, apiKeyConfigured = True\<rparr>
                in (result, Some result, True))
             else if st = 429 then
               (\<lparr>status = Offline, message = ''Rate limit exceeded - using mock data'',
                 timestamp = t0, usingMockData = True, apiKeyConfigured = True\<rparr>,
                cachedHealthCheck, True)
             else
               (let result = \<lparr>status = Online,
                               message = ''API returned '' @ show_nat st @ '' - mock data fallback active'',
                               timestamp = t0, usingMockData = True, apiKeyConfigured = True\<rparr>
                in (result, Some result, True))
         | Failed \<Rightarrow>
             (let result = \<lparr>status = Mock, message = ''API unavailable - using mock data'',
                             timestamp = t0, usingMockData = True, apiKeyConfigured = True\<rparr>
              in (result, Some result, True))))"

definition checkApiHealth ::
  "string \<Rightarrow> bool \<Rightarrow> int \<Rightarrow> int \<Rightarrow> probe \<Rightarrow> ApiHealthResult option \<Rightarrow>
   ApiHealthResult \<times> ApiHealthResult option \<times> bool" where
  "checkApiHealth key skipCache t0 t1 pr cachedHealthCheck =
     (case cachedHealthCheck of
        Some c \<Rightarrow>
          if \<not> skipCache \<and> isCacheValid t1 c then (c, cachedHealthCheck, False)
          else freshHealthCheck key t0 pr cachedHealthCheck
      | None \<Rightarrow> freshHealthCheck key t0 pr cachedHealthCheck)"

section \<open>Flight Normalizer (services/flightApi.ts)\<close>

subsection \<open>Raw records and normalized flights\<close>

text \<open>
  Of \<^verbatim>\<open>RawFlightData\<close> and \<^verbatim>\<open>Flight\<close> the development keeps the identity, airline, time,
  duration, price, stop and \<^verbatim>\<open>best\<close> fields: those the filter and sort derivation reads,
  and every raw field they are computed from. The remaining fields of \<^verbatim>\<open>Flight\<close>
  (airports, aircraft, flight number, cabin class, baggage, layover and the four search
  parameters copied through) are each filled by a fallback chain of their own and read by
  no function below. A field declared with \<^verbatim>\<open>?\<close> is an \<open>option\<close>: \<open>None\<close> is
  \<^verbatim>\<open>undefined\<close>. Raw fields carry the prefix \<open>raw_\<close>.
\<close>

datatype numstr = NumV jsnum | StrV string

datatype Carrier = Carrier (carrier_name: "string option")

datatype Endpoint = Endpoint (endpoint_time: "string option")

datatype Outbound = Outbound (outbound_departureTime: "string option") (outbound_arrivalTime: "string option")

datatype Segment = Segment (segment_departure: "Endpoint option") (segment_arrival: "Endpoint option")

datatype Journey = Journey (journey_duration: "string option")

record RawFlightData =
  raw_id :: "string option"
  raw_legId :: "string option"
  raw_itineraryId :: "string option"
  raw_airline :: "string option"
  raw_carrier :: "Carrier option"
  raw_carriers :: "string list option"
  raw_marketingCarrier :: "string option"
  raw_departureTime :: "string option"
  raw_arrivalTime :: "string option"
  raw_departure :: "Endpoint option"
  raw_arrival :: "Endpoint option"
  raw_outbound :: "Outbound option"
  raw_segments :: "Segment list option"
  raw_duration :: "string option"
  raw_totalDuration :: "string option"
  raw_time :: "string option"
  raw_journey :: "Journey option"
  raw_price :: "numstr option"
  raw_amount :: "numstr option"
  raw_total :: "numstr option"
  raw_fare :: "numstr option"
  raw_stops :: "jsnum option"
  raw_stopsCount :: "jsnum option"
  raw_best :: "bool option"
  raw_recommended :: "bool option"
  raw_isBest :: "bool option"

record Flight =
  flight_id :: string
  airline :: string
  departureTime :: string
  arrivalTime :: string
  duration :: string
  stops :: jsnum
  price :: jsnum
  best :: "bool option"

record NormalizeOptions =
  opt_index :: "jsnum option"

subsection \<open>Fallback chains\<close>

definition truthy_str :: "string option \<Rightarrow> bool" where
  "truthy_str a = (case a of Some s \<Rightarrow> s \<noteq> [] | None \<Rightarrow> False)"

text \<open>\<^verbatim>\<open>a1 || a2 || ... || lit\<close> on optional strings: the first non-empty one, else \<open>lit\<close>.\<close>

definition first_truthy :: "string option list \<Rightarrow> string \<Rightarrow> string" where
  "first_truthy as lit = (case filter truthy_str as of Some s # rest \<Rightarrow> s | _ \<Rightarrow> lit)"

definition truthy_numstr :: "numstr option \<Rightarrow> bool" where
  "truthy_numstr a = (case a of Some (NumV n) \<Rightarrow> truthy_num n | Some (StrV s) \<Rightarrow> s \<noteq> [] | None \<Rightarrow> False)"

definition first_truthy_numstr :: "numstr option list \<Rightarrow> numstr \<Rightarrow> numstr" where
  "first_truthy_numstr as lit = (case filter truthy_numstr as of Some v # rest \<Rightarrow> v | _ \<Rightarrow> lit)"

text \<open>\<^verbatim>\<open>a ?? b\<close>.\<close>

definition nullish_or :: "'a option \<Rightarrow> 'a option \<Rightarrow> 'a option" where
  "nullish_or a b = (case a of Some v \<Rightarrow> Some v | None \<Rightarrow> b)"

text \<open>\<^verbatim>\<open>xs.join(sep)\<close>.\<close>

fun join_str :: "string \<Rightarrow> string list \<Rightarrow> string" where
  "join_str sep [] = []"
| "join_str sep [x] = x"
| "join_str sep (x # y # ys) = x @ sep @ join_str sep (y # ys)"

text \<open>
  \<^verbatim>\<open>parseFloat(String(v))\<close>: for a number, \<^verbatim>\<open>String\<close> prints digits that read back as the
  same number, so the number itself comes out; for a string, \<^verbatim>\<open>String\<close> is the identity.
\<close>

definition parseFloat_String :: "numstr \<Rightarrow> jsnum" where
  "parseFloat_String v = (case v of NumV n \<Rightarrow> n | StrV s \<Rightarrow> parseFloat s)"

text \<open>
  An element of the array \<^verbatim>\<open>s.split(':').map(Number)\<close> taken by destructuring. A missing
  element is \<^verbatim>\<open>undefined\<close>, which every arithmetic operation turns into NaN.
\<close>

definition element_or_NaN :: "jsnum list \<Rightarrow> nat \<Rightarrow> jsnum" where
  "element_or_NaN xs i = (if i < length xs then xs ! i else NaN)"

subsection \<open>normalizeFlightObject\<close>

text \<open>The duration computed from two clock times, as in the \<^verbatim>\<open>try\<close> block.\<close>

definition backfill_duration :: "(rat \<Rightarrow> string) \<Rightarrow> string \<Rightarrow> string \<Rightarrow> string" where
  "backfill_duration fmt dep arr =
     (let deps = map Number_str (split_on (CHR '':'') dep);
          arrs = map Number_str (split_on (CHR '':'') arr);
          depHour = element_or_NaN deps 0;
          depMin = element_or_NaN deps 1;
          arrHour = element_or_NaN arrs 0;
          arrMin = element_or_NaN arrs 1;
          depMinutes = js_add (js_times depHour 60) depMin;
          arrMinutes = js_add (js_times arrHour 60) arrMin;
          durationMinutes0 = js_sub arrMinutes depMinutes;
          durationMinutes = (if js_lt durationMinutes0 (Fin 0) then js_add durationMinutes0 (Fin (24 * 60))
                             else durationMinutes0);
          hours = js_floor (js_over durationMinutes 60);
          minutes = js_rem durationMinutes 60
      in js_show fmt hours @ ''h '' @ js_show fmt minutes @ ''m'')"

text \<open>
  \<open>fmt\<close> is the engine's printing of non-integral numbers (see \<open>js_show\<close>) and \<open>now\<close>
  the value of \<^verbatim>\<open>Date.now()\<close>.
\<close>

definition normalizeFlightObject ::
  "(rat \<Rightarrow> string) \<Rightarrow> int \<Rightarrow> RawFlightData \<Rightarrow> NormalizeOptions \<Rightarrow> Flight" where
  "normalizeFlightObject fmt now flightData options =
     (let index = (case opt_index options of Some i \<Rightarrow> i | None \<Rightarrow> Fin 0);
          normalized = \<lparr>
            flight_id =
              first_truthy [raw_id flightData, raw_legId flightData, raw_itineraryId flightData]
                (''flight-'' @ js_show fmt index @ ''-'' @ js_show fmt (Fin (of_int now))),
            airline =
              first_truthy
                [raw_airline flightData,
                 Option.bind (raw_carrier flightData) carrier_name,
                 map_option (join_str '', '') (raw_carriers flightData),
                 raw_marketingCarrier flightData]
                ''Unknown Airline'',
            departureTime =
              first_truthy
                [raw_departureTime flightData,
                 Option.bind (raw_departure flightData) endpoint_time,
                 Option.bind (raw_segments flightData)
                   (\<lambda>segs. case segs of [] \<Rightarrow> None
                            | sg # rest \<Rightarrow> Option.bind (segment_departure sg) endpoint_time),
                 Option.bind (raw_outbound flightData) outbound_departureTime]
                [],
            arrivalTime =
              first_truthy
                [raw_arrivalTime flightData,
                 Option.bind (raw_arrival flightData) endpoint_time,
                 Option.bind (raw_segments flightData)
                   (\<lambda>segs. if segs = [] then None
                            else Option.bind (segment_arrival (last segs)) endpoint_time),
                 Option.bind (raw_outbound flightData) outbound_arrivalTime]
                [],
            duration =
              first_truthy
                [raw_duration flightData,
                 raw_totalDuration flightData,
                 Option.bind (raw_journey flightData) journey_duration,
                 raw_time flightData]
                [],
            stops =
              (case nullish_or (raw_stops flightData)
                      (nullish_or
                         (Some (case raw_segments flightData of
                                  Some segs \<Rightarrow> Math_max [Fin 0, Fin (of_nat (length segs) - 1)]
                                | None \<Rightarrow> Fin 0))
                         (nullish_or (raw_stopsCount flightData) (Some (Fin 0)))) of
                 Some n \<Rightarrow> n
               | None \<Rightarrow> Fin 0),
            price =
              parseFloat_String
                (first_truthy_numstr
                   [raw_price flightData, raw_amount flightData, raw_total flightData, raw_fare flightData]
                   (NumV (Fin 0))),
            best =
              Some (raw_best flightData = Some True \<or> raw_recommended flightData = Some True
                    \<or> raw_isBest flightData = Some True)
          \<rparr>
      in if duration normalized = [] \<and> departureTime normalized \<noteq> [] \<and> arrivalTime normalized \<noteq> [] then
           normalized\<lparr>duration :=
             backfill_duration fmt (departureTime normalized) (arrivalTime normalized)\<rparr>
         else normalized)"

subsection \<open>normalizeFlightResponse\<close>

text \<open>
  The response is any parsed JSON value (the parameter has type \<^verbatim>\<open>unknown\<close>). An object
  is its list of properties; a name is looked up with \<open>map_of\<close>.
\<close>

datatype json =
  JUndefined
| JNull
| JBool bool
| JNum jsnum
| JStr string
| JArr "json list"
| JObj "(string \<times> json) list"

definition isArray :: "json \<Rightarrow> bool" where
  "isArray v = (case v of JArr xs \<Rightarrow> True | _ \<Rightarrow> False)"

definition elements :: "json \<Rightarrow> json list" where
  "elements v = (case v of JArr xs \<Rightarrow> xs | _ \<Rightarrow> [])"

definition truthy_json :: "json \<Rightarrow> bool" where
  "truthy_json v =
     (case v of
        JUndefined \<Rightarrow> False
      | JNull \<Rightarrow> False
      | JBool b \<Rightarrow> b
      | JNum n \<Rightarrow> truthy_num n
      | JStr s \<Rightarrow> s \<noteq> []
      | JArr xs \<Rightarrow> True
      | JObj ps \<Rightarrow> True)"

text \<open>\<^verbatim>\<open>typeof v === 'object'\<close>: objects, arrays and \<^verbatim>\<open>null\<close>.\<close>

definition typeof_object :: "json \<Rightarrow> bool" where
  "typeof_object v = (case v of JNull \<Rightarrow> True | JArr xs \<Rightarrow> True | JObj ps \<Rightarrow> True | _ \<Rightarrow> False)"

text \<open>\<^verbatim>\<open>name in v\<close> and \<^verbatim>\<open>v.name\<close>, for the names \<^verbatim>\<open>data\<close> and \<^verbatim>\<open>flights\<close>, which no array has.\<close>

definition has_property :: "string \<Rightarrow> json \<Rightarrow> bool" where
  "has_property name v = (case v of JObj ps \<Rightarrow> map_of ps name \<noteq> None | _ \<Rightarrow> False)"

definition property :: "json \<Rightarrow> string \<Rightarrow> json" where
  "property v name =
     (case v of
        JObj ps \<Rightarrow> (case map_of ps name of Some x \<Rightarrow> x | None \<Rightarrow> JUndefined)
      | _ \<Rightarrow> JUndefined)"

definition normalizeFlightResponse :: "json \<Rightarrow> json list" where
  "normalizeFlightResponse response =
     (if isArray response then elements response
      else if truthy_json response \<and> typeof_object response \<and> has_property ''data'' response then
        (let rawData = property response ''data''
         in if truthy_json rawData \<and> typeof_object rawData then
              (if isArray (property rawData ''data'') then elements (property rawData ''data'')
               else if isArray (property rawData ''flights'') then elements (property rawData ''flights'')
               else if isArray rawData then elements rawData
               else [])
            else [])
      else [])"

section \<open>Price range (utils/calculatePriceRange.ts)\<close>

record PriceRange =
  range_min :: jsnum
  range_max :: jsnum

definition calculatePriceRange :: "jsnum list \<Rightarrow> PriceRange" where
  "calculatePriceRange flightPrices =
     (let validPrices = filter (\<lambda>p. js_gt p (Fin 0)) flightPrices
      in if length validPrices = 0 then \<lparr>range_min = Fin 0, range_max = Fin 10000\<rparr>
         else (let minPrice = Math_min validPrices;
                   maxPrice = Math_max validPrices
               in \<lparr>range_min = Math_max [Fin 0, js_times (js_floor (js_over minPrice 100)) 100],
                   range_max = js_times (js_ceil (js_over maxPrice 100)) 100\<rparr>))"

section \<open>Search Orchestrator and Filter/Sort Engine (context/SearchContext.tsx)\<close>

record FlightFilters =
  priceRange :: PriceRange
  filter_stops :: "jsnum list"
  filter_airlines :: "string list"
  filter_departureTimes :: "string list"
  filter_arrivalTimes :: "string list"
  filter_duration :: jsnum

datatype SortOption = Best | Cheapest | Fastest | ByDuration | ByDeparture

definition defaultFilters :: FlightFilters where
  "defaultFilters =
     \<lparr>priceRange = \<lparr>range_min = Fin 0, range_max = Fin 10000\<rparr>,
      filter_stops = [], filter_airlines = [], filter_departureTimes = [],
      filter_arrivalTimes = [], filter_duration = Fin 0\<rparr>"

definition calculatePriceRangeFromFlights :: "Flight list \<Rightarrow> PriceRange" where
  "calculatePriceRangeFromFlights flights =
     (if length flights > 0 then calculatePriceRange (map price flights)
      else priceRange defaultFilters)"

subsection \<open>parseDuration\<close>

text \<open>
  The regular expression \<^verbatim>\<open>/(\d+)h\s*(\d+)m?/\<close> tried at the start of a string: a maximal
  run of digits, the letter h, any white space, a maximal run of digits. (A shorter run
  of digits or of white space can never make a failed attempt succeed, so taking maximal
  runs is what the backtracking matcher finds.) The result is the two groups.
\<close>

definition match_duration_at :: "string \<Rightarrow> (string \<times> string) option" where
  "match_duration_at s =
     (let g1 = takeWhile is_digit s
      in if g1 = [] then None
         else (case dropWhile is_digit s of
                 c # r \<Rightarrow>
                   if c = CHR ''h'' then
                     (let g2 = takeWhile is_digit (dropWhile is_space r)
                      in if g2 = [] then None else Some (g1, g2))
                   else None
               | [] \<Rightarrow> None))"

text \<open>\<^verbatim>\<open>duration.match(...)\<close>: the leftmost position where the expression matches.\<close>

fun match_duration :: "string \<Rightarrow> (string \<times> string) option" where
  "match_duration [] = None"
| "match_duration (c # cs) =
     (case match_duration_at (c # cs) of Some g \<Rightarrow> Some g | None \<Rightarrow> match_duration cs)"

definition parseDuration :: "string \<Rightarrow> jsnum" where
  "parseDuration d =
     (case match_duration d of
        Some (g1, g2) \<Rightarrow> js_add (js_times (parseInt g1) 60) (parseInt (if g2 = [] then ''0'' else g2))
      | None \<Rightarrow> Fin 0)"

subsection \<open>Array.prototype.sort\<close>

text \<open>
  \<^verbatim>\<open>xs.sort(cmp)\<close>. The language requires a stable sort, reads a NaN returned by \<open>cmp\<close>
  as 0, and fixes the result whenever \<open>cmp\<close> is a consistent comparator; the model is the
  stable insertion sort, which moves \<open>x\<close> behind \<open>y\<close> only when \<open>cmp x y > 0\<close>. For a
  comparator that is not consistent the language leaves the order to the engine: there
  the model is one engine among several, and no property of every engine follows from it.
\<close>

fun js_insort :: "('a \<Rightarrow> 'a \<Rightarrow> jsnum) \<Rightarrow> 'a \<Rightarrow> 'a list \<Rightarrow> 'a list" where
  "js_insort cmp x [] = [x]"
| "js_insort cmp x (y # ys) = (if js_gt (cmp x y) (Fin 0) then y # js_insort cmp x ys else x # y # ys)"

definition js_sort :: "('a \<Rightarrow> 'a \<Rightarrow> jsnum) \<Rightarrow> 'a list \<Rightarrow> 'a list" where
  "js_sort cmp xs = foldr (js_insort cmp) xs []"

subsection \<open>getFilteredFlights\<close>

definition in_time_range :: "jsnum \<Rightarrow> string \<Rightarrow> bool" where
  "in_time_range hour timeRange =
     (if timeRange = ''morning'' then js_ge hour (Fin 6) \<and> js_lt hour (Fin 12)
      else if timeRange = ''afternoon'' then js_ge hour (Fin 12) \<and> js_lt hour (Fin 18)
      else if timeRange = ''evening'' then js_ge hour (Fin 18) \<and> js_lt hour (Fin 24)
      else if timeRange = ''night'' then js_ge hour (Fin 0) \<and> js_lt hour (Fin 6)
      else False)"

text \<open>\<^verbatim>\<open>parseInt(t.split(':')[0])\<close>.\<close>

definition hour_of :: "string \<Rightarrow> jsnum" where
  "hour_of t = parseInt (case split_on (CHR '':'') t of p # ps \<Rightarrow> p | [] \<Rightarrow> [])"

definition is_best :: "Flight \<Rightarrow> bool" where
  "is_best f = (best f = Some True)"

definition compare_cheapest :: "Flight \<Rightarrow> Flight \<Rightarrow> jsnum" where
  "compare_cheapest a b = js_sub (price a) (price b)"

definition compare_fastest :: "Flight \<Rightarrow> Flight \<Rightarrow> jsnum" where
  "compare_fastest a b = js_sub (parseDuration (duration a)) (parseDuration (duration b))"

definition compare_best :: "Flight \<Rightarrow> Flight \<Rightarrow> jsnum" where
  "compare_best a b =
     (if is_best a \<and> \<not> is_best b then Fin (- 1)
      else if \<not> is_best a \<and> is_best b then Fin 1
      else if js_eq (stops a) (Fin 0) \<and> js_gt (stops b) (Fin 0) then Fin (- 1)
      else if js_gt (stops a) (Fin 0) \<and> js_eq (stops b) (Fin 0) then Fin 1
      else js_sub (price a) (price b))"

text \<open>The filtering steps of \<^verbatim>\<open>getFilteredFlights\<close>, in the order of the source.\<close>

definition apply_filters :: "FlightFilters \<Rightarrow> Flight list \<Rightarrow> Flight list" where
  "apply_filters filters flights =
     (let filtered1 = filter (\<lambda>flight. js_ge (price flight) (range_min (priceRange filters))
                                      \<and> js_le (price flight) (range_max (priceRange filters))) flights;
          filtered2 = (if length (filter_stops filters) > 0
                       then filter (\<lambda>flight. stops flight \<in> set (filter_stops filters)) filtered1
                       else filtered1);
          filtered3 = (if length (filter_airlines filters) > 0
                       then filter (\<lambda>flight. airline flight \<in> set (filter_airlines filters)) filtered2
                       else filtered2);
          filtered4 = (if length (filter_departureTimes filters) > 0
                       then filter (\<lambda>flight. list_ex (in_time_range (hour_of (departureTime flight)))
                                               (filter_departureTimes filters)) filtered3
                       else filtered3);
          filtered5 = (if length (filter_arrivalTimes filters) > 0
                       then filter (\<lambda>flight. list_ex (in_time_range (hour_of (arrivalTime flight)))
                                               (filter_arrivalTimes filters)) filtered4
                       else filtered4)
      in if js_gt (filter_duration filters) (Fin 0)
         then filter (\<lambda>flight. js_le (parseDuration (duration flight)) (filter_duration filters)) filtered5
         else filtered5)"

definition getFilteredFlights :: "Flight list \<Rightarrow> FlightFilters \<Rightarrow> SortOption \<Rightarrow> Flight list" where
  "getFilteredFlights flights filters sortOption =
     (if length flights = 0 then []
      else (let filtered = apply_filters filters flights
            in case sortOption of
                 Cheapest \<Rightarrow> js_sort compare_cheapest filtered
               | Fastest \<Rightarrow> js_sort compare_fastest filtered
               | _ \<Rightarrow> js_sort compare_best filtered))"

subsection \<open>The sort of another engine\<close>





text \<open>\<^verbatim>\<open>getFilteredFlights\<close> on an engine whose \<^verbatim>\<open>sort\<close> is \<open>engine_sort\<close>.\<close>

definition getFilteredFlights_on ::
  "((Flight \<Rightarrow> Flight \<Rightarrow> jsnum) \<Rightarrow> Flight list \<Rightarrow> Flight list) \<Rightarrow>
   Flight list \<Rightarrow> FlightFilters \<Rightarrow> SortOption \<Rightarrow> Flight list" where
  "getFilteredFlights_on engine_sort flights filters sortOption =
     (if length flights = 0 then []
      else (let filtered = apply_filters filters flights
            in case sortOption of
                 Cheapest \<Rightarrow> engine_sort compare_cheapest filtered
               | Fastest \<Rightarrow> engine_sort compare_fastest filtered
               | _ \<Rightarrow> engine_sort compare_best filtered))"

section \<open>Concrete inputs\<close>

text \<open>A raw record with every field absent, and an engine printing nothing for fractions.\<close>

definition empty_raw :: RawFlightData where
  "empty_raw =
     \<lparr>raw_id = None, raw_legId = None, raw_itineraryId = None, raw_airline = None,
      raw_carrier = None, raw_carriers = None, raw_marketingCarrier = None,
      raw_departureTime = None, raw_arrivalTime = None, raw_departure = None,
      raw_arrival = None, raw_outbound = None, raw_segments = None, raw_duration = None,
      raw_totalDuration = None, raw_time = None, raw_journey = None, raw_price = None,
      raw_amount = None, raw_total = None, raw_fare = None, raw_stops = None,
      raw_stopsCount = None, raw_best = None, raw_recommended = None, raw_isBest = None\<rparr>"

definition plain_fmt :: "rat \<Rightarrow> string" where
  "plain_fmt q = []"

definition no_options :: NormalizeOptions where
  "no_options = \<lparr>opt_index = None\<rparr>"

text \<open>
  Request functions over a state that counts their invocations: one that always throws a
  given value, one that always returns.
\<close>

definition always_reject :: "thrown \<Rightarrow> nat \<Rightarrow> (thrown + unit) \<times> nat" where
  "always_reject e s = (Inl e, s + 1)"

definition always_return :: "nat \<Rightarrow> (thrown + unit) \<times> nat" where
  "always_return s = (Inr (), s + 1)"

definition no_jitter :: "nat \<Rightarrow> rat" where
  "no_jitter k = 0"

definition error_429 :: thrown where
  "error_429 = Err False ''Error'' ''Too Many Requests'' (Some (Some (Fin 429)))"

definition error_503 :: thrown where
  "error_503 = Err False ''Error'' ''Service Unavailable'' (Some (Some (Fin 503)))"

definition fetch_error_429 :: thrown where
  "fetch_error_429 = Err True ''TypeError'' ''Failed to fetch'' (Some (Some (Fin 429)))"

definition mock_failure :: thrown where
  "mock_failure = Err False ''Error'' ''mock data unavailable'' None"

definition cached_online :: ApiHealthResult where
  "cached_online = \<lparr>status = Online, message = ''Connected to RapidAPI'', timestamp = 0,
                    usingMockData = False, apiKeyConfigured = True\<rparr>"

definition flight_one_stop :: Flight where
  "flight_one_stop = \<lparr>flight_id = ''one-stop'', airline = ''Delta'', departureTime = ''08:00'',
     arrivalTime = ''12:00'', duration = ''4h 0m'', stops = Fin 1, price = Fin 200, best = None\<rparr>"

definition flight_two_stops :: Flight where
  "flight_two_stops = \<lparr>flight_id = ''two-stops'', airline = ''United'', departureTime = ''09:00'',
     arrivalTime = ''15:00'', duration = ''6h 0m'', stops = Fin 2, price = Fin 100, best = None\<rparr>"




section \<open>Vocabulary of the properties\<close>

text \<open>An \<^verbatim>\<open>Error\<close> object whose \<^verbatim>\<open>status\<close> property is the number \<open>n\<close>.\<close>

definition carries_status :: "thrown \<Rightarrow> rat \<Rightarrow> bool" where
  "carries_status e n = (case e of Err ty name msg st \<Rightarrow> st = Some (Some (Fin n)) | _ \<Rightarrow> False)"

text \<open>A \<^verbatim>\<open>TypeError\<close> whose message contains \<^verbatim>\<open>fetch\<close>: what a failed \<^verbatim>\<open>fetch\<close> throws.\<close>

definition is_fetch_TypeError :: "thrown \<Rightarrow> bool" where
  "is_fetch_TypeError e = (case e of Err ty name msg st \<Rightarrow> ty \<and> includes_str msg ''fetch'' | _ \<Rightarrow> False)"

text \<open>A request function that rejects, whatever the state, with an error of status \<open>n\<close>.\<close>

definition always_rejects_with_status :: "('s \<Rightarrow> (thrown + 'a) \<times> 's) \<Rightarrow> rat \<Rightarrow> bool" where
  "always_rejects_with_status requestFn n =
     (\<forall>s. case requestFn s of (Inl e, s1) \<Rightarrow> carries_status e n | (Inr v, s1) \<Rightarrow> False)"

definition never_fetch_TypeError :: "('s \<Rightarrow> (thrown + 'a) \<times> 's) \<Rightarrow> bool" where
  "never_fetch_TypeError requestFn =
     (\<forall>s. case requestFn s of (Inl e, s1) \<Rightarrow> \<not> is_fetch_TypeError e | (Inr v, s1) \<Rightarrow> True)"

text \<open>
  A call of \<^verbatim>\<open>checkApiHealth\<close> misses the cache: it is forced, or the slot is empty, or
  the cached result has expired.
\<close>

definition cache_miss :: "bool \<Rightarrow> int \<Rightarrow> ApiHealthResult option \<Rightarrow> bool" where
  "cache_miss skipCache t1 cache =
     (skipCache \<or> (case cache of None \<Rightarrow> True | Some c \<Rightarrow> \<not> isCacheValid t1 c))"

definition blank :: "string \<Rightarrow> bool" where
  "blank key = (trim key = [])"

text \<open>A supplied price that is a number \<open>\<ge> 0\<close>, or a string that \<^verbatim>\<open>parseFloat\<close> reads as one.\<close>

definition nonneg_numstr :: "numstr \<Rightarrow> bool" where
  "nonneg_numstr v = (case v of NumV n \<Rightarrow> js_ge n (Fin 0) | StrV s \<Rightarrow> js_ge (parseFloat s) (Fin 0))"

text \<open>
  The envelope shapes the specification lists: a direct array, \<^verbatim>\<open>{data: {data: [...]}}\<close>
  and \<^verbatim>\<open>{data: {flights: [...]}}\<close>.
\<close>

definition listed_shape :: "json \<Rightarrow> bool" where
  "listed_shape v = (isArray v \<or> isArray (property (property v ''data'') ''data'')
                     \<or> isArray (property (property v ''data'') ''flights''))"

text \<open>A strictly positive price.\<close>

definition positive :: "jsnum \<Rightarrow> bool" where
  "positive p = js_gt p (Fin 0)"

text \<open>A flight passes the filters: the conjunction of the filtering steps.\<close>

definition passes :: "FlightFilters \<Rightarrow> Flight \<Rightarrow> bool" where
  "passes filters flight =
     (js_ge (price flight) (range_min (priceRange filters)) \<and>
      js_le (price flight) (range_max (priceRange filters)) \<and>
      (filter_stops filters = [] \<or> stops flight \<in> set (filter_stops filters)) \<and>
      (filter_airlines filters = [] \<or> airline flight \<in> set (filter_airlines filters)) \<and>
      (filter_departureTimes filters = [] \<or>
         list_ex (in_time_range (hour_of (departureTime flight))) (filter_departureTimes filters)) \<and>
      (filter_arrivalTimes filters = [] \<or>
         list_ex (in_time_range (hour_of (arrivalTime flight))) (filter_arrivalTimes filters)) \<and>
      (\<not> js_gt (filter_duration filters) (Fin 0) \<or>
         js_le (parseDuration (duration flight)) (filter_duration filters)))"

text \<open>The sort leaves \<open>a\<close> in front of \<open>b\<close>: the comparator does not return a positive number.\<close>

definition order_respecting :: "('a \<Rightarrow> 'a \<Rightarrow> jsnum) \<Rightarrow> 'a \<Rightarrow> 'a \<Rightarrow> bool" where
  "order_respecting cmp a b = (\<not> js_gt (cmp a b) (Fin 0))"

text \<open>
  Numbers in a linear order: \<open>-\<infinity>\<close>, the finite values, \<open>+\<infinity>\<close> (and NaN last, which
  no comparison below reaches). Pairs and triples are ordered lexicographically, and
  \<open>False < True\<close>.
\<close>

definition num_key :: "jsnum \<Rightarrow> int \<times> rat" where
  "num_key x = (case x of NInf \<Rightarrow> (- 1, 0) | Fin q \<Rightarrow> (0, q) | PInf \<Rightarrow> (1, 0) | NaN \<Rightarrow> (2, 0))"

text \<open>
  The key the \<^verbatim>\<open>best\<close> comparator sorts by: flights marked best first, then non-stop
  flights before flights with stops, then the price.
\<close>

definition best_key :: "Flight \<Rightarrow> bool \<times> bool \<times> int \<times> rat" where
  "best_key f = (\<not> is_best f, \<not> js_eq (stops f) (Fin 0), num_key (price f))"

text \<open>
  The key in the words of the specification: the lexicographic order on (best-flag,
  stop-count, price), a lower stop count before a higher one.
\<close>

definition claimed_key :: "Flight \<Rightarrow> bool \<times> (int \<times> rat) \<times> int \<times> rat" where
  "claimed_key f = (\<not> is_best f, num_key (stops f), num_key (price f))"

text \<open>A flight with \<open>stops \<ge> 0\<close> whose price is a number.\<close>

definition well_formed :: "Flight \<Rightarrow> bool" where
  "well_formed f = (js_ge (stops f) (Fin 0) \<and> price f \<noteq> NaN)"

text \<open>
  A comparator agrees with a key on a set of flights: it returns a positive number exactly
  when the first key is the greater and a negative number exactly when it is the smaller
  (so zero or NaN exactly on equal keys). Such a comparator is consistent in the sense of
  the language standard, which then prescribes the result of \<^verbatim>\<open>sort\<close>: the stable sort by
  that key. An engine conforms when its sort returns that result.
\<close>

type_synonym order_key = "bool \<times> bool \<times> int \<times> rat"

definition agrees :: "(Flight \<Rightarrow> Flight \<Rightarrow> jsnum) \<Rightarrow> (Flight \<Rightarrow> order_key) \<Rightarrow> Flight set \<Rightarrow> bool" where
  "agrees cmp key S =
     (\<forall>a\<in>S. \<forall>b\<in>S. (js_gt (cmp a b) (Fin 0) \<longleftrightarrow> key b < key a) \<and>
                     (js_lt (cmp a b) (Fin 0) \<longleftrightarrow> key a < key b))"

definition conforming :: "((Flight \<Rightarrow> Flight \<Rightarrow> jsnum) \<Rightarrow> Flight list \<Rightarrow> Flight list) \<Rightarrow> bool" where
  "conforming engine_sort =
     (\<forall>cmp key xs. agrees cmp key (set xs) \<longrightarrow> engine_sort cmp xs = sort_key key xs)"




section \<open>Environment Resolver: the two predicates\<close>

lemma isApiKeyConfigured_iff: "isApiKeyConfigured key \<longleftrightarrow> trim key \<noteq> []"
  by (auto simp: isApiKeyConfigured_def trim_def)

lemma isApiConfigured_iff: "isApiConfigured key \<longleftrightarrow> key \<noteq> []"
  by (simp add: isApiConfigured_def)

text \<open>
  Claim C6. The claim reads: \<^verbatim>\<open>isApiConfigured\<close> is true iff the key is non-empty after
  trimming, hence false for a key made of white space. The predicate of apiStatus,
  \<^verbatim>\<open>isApiKeyConfigured\<close>, is exactly that (\<open>isApiKeyConfigured_iff\<close>), but
  \<^verbatim>\<open>isApiConfigured\<close> tests the untrimmed key: on the key of three spaces, which trims to
  the empty string, it answers true where its sibling answers false.
\<close>

theorem isApiConfigured_whitespace_key:
  "isApiConfigured ''   '' \<and> trim ''   '' = [] \<and> \<not> isApiKeyConfigured ''   ''"
  by (simp add: isApiConfigured_def isApiKeyConfigured_def trim_def is_space_def)

section \<open>Retry Executor: how often the request function runs\<close>

lemma not_retryable_429:
  "carries_status e 429 \<Longrightarrow> \<not> is_fetch_TypeError e \<Longrightarrow> \<not> isRetryableError e codes"
  by (auto simp: carries_status_def is_fetch_TypeError_def isRetryableError_def js_eq_def js_ge_def
      js_le_def split: thrown.splits)

lemma retryable_503:
  "carries_status e 503 \<Longrightarrow> isRetryableError e DEFAULT_retryableStatusCodes"
  by (auto simp: carries_status_def isRetryableError_def js_eq_def js_ge_def js_le_def
      DEFAULT_retryableStatusCodes_def split: thrown.splits)

lemma retry_loop_stops:
  assumes "requestFn s = (Inl e, s1)" and "\<not> isRetryableError e codes" and "int attempt \<le> mr"
  shows "retry_loop mr bd md codes rnd requestFn attempt le s calls waits = (Inl e, s1, calls + 1, waits)"
  using assms by (subst retry_loop.simps) simp

text \<open>
  When every rejection is retryable the loop uses the whole budget: from attempt \<open>k\<close> on
  it makes \<open>maxRetries + 1 - k\<close> further calls. Induction on the attempts that remain.
\<close>

lemma retry_loop_retryable:
  assumes "\<forall>s. \<exists>e s1. requestFn s = (Inl e, s1) \<and> P e \<and> isRetryableError e codes"
  shows "int attempt \<le> mr \<Longrightarrow>
     (\<exists>e. fst (retry_loop mr bd md codes rnd requestFn attempt le s calls waits) = Inl e \<and> P e) \<and>
     fst (snd (snd (retry_loop mr bd md codes rnd requestFn attempt le s calls waits)))
       = calls + nat (mr + 1 - int attempt)"
proof (induction "nat (mr - int attempt)" arbitrary: attempt le s calls waits)
  case 0
  from assms obtain e s1 where e: "requestFn s = (Inl e, s1)" "P e" "isRetryableError e codes"
    by blast
  from 0 have "int attempt = mr" by simp
  with e show ?case by (subst (1 2) retry_loop.simps) simp
next
  case (Suc n)
  from assms obtain e s1 where e: "requestFn s = (Inl e, s1)" "P e" "isRetryableError e codes"
    by blast
  from Suc(2) have lt: "int attempt < mr" by simp
  have unf: "retry_loop mr bd md codes rnd requestFn attempt le s calls waits =
      retry_loop mr bd md codes rnd requestFn (attempt + 1) e s1 (calls + 1)
               (waits @ [calculateDelay attempt bd md (rnd attempt)])"
    using e lt by (subst retry_loop.simps) simp
  have n: "n = nat (mr - int (attempt + 1))" using Suc(2) by simp
  have le1: "int (attempt + 1) \<le> mr" using lt by simp
  show ?case
    unfolding unf using Suc(1)[OF n le1, of e s1 "calls + 1"] lt
    by (simp add: nat_diff_distrib)
qed

lemma always_reject_status: "carries_status e n \<Longrightarrow> always_rejects_with_status (always_reject e) n"
  by (simp add: always_rejects_with_status_def always_reject_def)

lemma always_reject_no_fetch: "\<not> is_fetch_TypeError e \<Longrightarrow> never_fetch_TypeError (always_reject e)"
  by (simp add: never_fetch_TypeError_def always_reject_def)

text \<open>
  Claim C2, as stated: with the default configuration, a request function that always
  rejects with an Error of status 429 runs exactly once, and one that always rejects with
  an Error of status 503 runs \<open>maxRetries + 1\<close> times, before the error is rethrown. The
  429 half fails for one kind of Error: a \<^verbatim>\<open>TypeError\<close> whose message contains
  \<^verbatim>\<open>fetch\<close> is classified as a network error before its status is read, and is retried.
  Here the request function always throws such an error with status 429, and runs three
  times.
\<close>

theorem retry_fetch_TypeError_429_counterexample:
  "always_rejects_with_status (always_reject fetch_error_429) 429 \<and>
   calls_of (apiRequestWithRetry no_jitter (always_reject fetch_error_429) no_config 0) = 3"
proof -
  have h: "always_rejects_with_status (always_reject fetch_error_429) 429"
    by (rule always_reject_status) (simp add: fetch_error_429_def carries_status_def)
  have r: "isRetryableError fetch_error_429 DEFAULT_retryableStatusCodes"
    by (simp add: isRetryableError_def fetch_error_429_def)
  have "calls_of (apiRequestWithRetry no_jitter (always_reject fetch_error_429) no_config 0) = 3"
    using r
    by (simp add: apiRequestWithRetry_def no_config_def calls_of_def retry_loop.simps
        always_reject_def DEFAULT_maxRetries_def)
  with h show ?thesis by simp
qed

text \<open>
  Claim C2, amended: with the default configuration, a request function that always
  rejects with an Error of status 429 that is not a fetch \<^verbatim>\<open>TypeError\<close> runs exactly once
  and the caller gets the error of that call; a request function that always rejects with
  an Error of status 503 runs \<open>maxRetries + 1\<close> times and the caller gets an error of
  status 503.
\<close>

theorem retry_policy_429_503:
  "(always_rejects_with_status requestFn 429 \<and> never_fetch_TypeError requestFn \<longrightarrow>
      calls_of (apiRequestWithRetry rnd requestFn no_config s) = 1 \<and>
      outcome_of (apiRequestWithRetry rnd requestFn no_config s) = fst (requestFn s)) \<and>
   (always_rejects_with_status requestFn 503 \<longrightarrow>
      calls_of (apiRequestWithRetry rnd requestFn no_config s) = nat (DEFAULT_maxRetries + 1) \<and>
      (\<exists>e. outcome_of (apiRequestWithRetry rnd requestFn no_config s) = Inl e \<and> carries_status e 503))"
proof (intro conjI impI)
  assume a: "always_rejects_with_status requestFn 429 \<and> never_fetch_TypeError requestFn"
  obtain r s1 where r: "requestFn s = (r, s1)" by (cases "requestFn s")
  with a obtain e where e: "r = Inl e" "carries_status e 429" "\<not> is_fetch_TypeError e"
    by (auto simp: always_rejects_with_status_def never_fetch_TypeError_def
        split: sum.splits dest!: spec[of _ s])
  have "retry_loop DEFAULT_maxRetries DEFAULT_baseDelay DEFAULT_maxDelay DEFAULT_retryableStatusCodes
          rnd requestFn 0 Undefined s 0 [] = (Inl e, s1, 0 + 1, [])"
    using r e by (intro retry_loop_stops not_retryable_429) (simp_all add: DEFAULT_maxRetries_def)
  then show "calls_of (apiRequestWithRetry rnd requestFn no_config s) = 1"
    and "outcome_of (apiRequestWithRetry rnd requestFn no_config s) = fst (requestFn s)"
    using r e by (simp_all add: apiRequestWithRetry_def no_config_def calls_of_def outcome_of_def)
next
  assume a: "always_rejects_with_status requestFn 503"
  have all: "\<forall>s. \<exists>e s1. requestFn s = (Inl e, s1) \<and> carries_status e 503
               \<and> isRetryableError e DEFAULT_retryableStatusCodes"
  proof
    fix s'
    obtain r s1 where r: "requestFn s' = (r, s1)" by (cases "requestFn s'")
    with a obtain e where "r = Inl e" "carries_status e 503"
      by (auto simp: always_rejects_with_status_def split: sum.splits dest!: spec[of _ s'])
    with r show "\<exists>e s1. requestFn s' = (Inl e, s1) \<and> carries_status e 503
               \<and> isRetryableError e DEFAULT_retryableStatusCodes"
      by (auto intro: retryable_503)
  qed
  have z: "int 0 \<le> DEFAULT_maxRetries" by (simp add: DEFAULT_maxRetries_def)
  note l = retry_loop_retryable[OF all z, of DEFAULT_baseDelay DEFAULT_maxDelay rnd Undefined s 0 "[]"]
  from l show "calls_of (apiRequestWithRetry rnd requestFn no_config s) = nat (DEFAULT_maxRetries + 1)"
    by (simp add: apiRequestWithRetry_def no_config_def calls_of_def)
  from l show "\<exists>e. outcome_of (apiRequestWithRetry rnd requestFn no_config s) = Inl e \<and> carries_status e 503"
    by (simp add: apiRequestWithRetry_def no_config_def outcome_of_def)
qed

text \<open>The amended claim at a plain Error of status 429 and at a plain Error of status 503.\<close>

theorem retry_policy_429_503_witness:
  "always_rejects_with_status (always_reject error_429) 429 \<and>
   never_fetch_TypeError (always_reject error_429) \<and>
   calls_of (apiRequestWithRetry no_jitter (always_reject error_429) no_config 0) = 1 \<and>
   outcome_of (apiRequestWithRetry no_jitter (always_reject error_429) no_config 0) = Inl error_429 \<and>
   always_rejects_with_status (always_reject error_503) 503 \<and>
   calls_of (apiRequestWithRetry no_jitter (always_reject error_503) no_config 0) = 3"
proof -
  have h1: "always_rejects_with_status (always_reject error_429) 429"
    by (rule always_reject_status) (simp add: error_429_def carries_status_def)
  have h2: "never_fetch_TypeError (always_reject error_429)"
    by (rule always_reject_no_fetch) (simp add: error_429_def is_fetch_TypeError_def)
  have h3: "always_rejects_with_status (always_reject error_503) 503"
    by (rule always_reject_status) (simp add: error_503_def carries_status_def)
  show ?thesis
    using h1 h2 h3
      retry_policy_429_503[of "always_reject error_429" no_jitter 0]
      retry_policy_429_503[of "always_reject error_503" no_jitter 0]
    by (simp add: always_reject_def DEFAULT_maxRetries_def)
qed

section \<open>Mock-Fallback Wrapper: what reaches the caller\<close>

text \<open>
  Claim C3, as stated: for every \<^verbatim>\<open>apiCall\<close> and \<^verbatim>\<open>getMockData\<close>, \<^verbatim>\<open>withMockFallback\<close>
  never propagates an error. It does when \<^verbatim>\<open>getMockData\<close> itself fails, which nothing
  catches: without a key, and with a key after a failed API call, the caller receives the
  error of \<^verbatim>\<open>getMockData\<close>.
\<close>

theorem withMockFallback_propagates_counterexample:
  "fst (withMockFallback [] always_return (always_reject mock_failure) 0) = Inl mock_failure \<and>
   fst (withMockFallback ''k'' (always_reject error_503) (always_reject mock_failure) 0) = Inl mock_failure"
  by (simp add: withMockFallback_def always_reject_def)

text \<open>
  Claim C3, amended: when the key is not configured (the empty string) the wrapper returns
  the outcome of \<^verbatim>\<open>getMockData()\<close> and invokes nothing else; when the key is configured
  and \<^verbatim>\<open>apiCall\<close> throws any error \<open>e\<close>, it returns the outcome of \<^verbatim>\<open>getMockData()\<close>
  unchanged; and an error reaches the caller only as the outcome of \<^verbatim>\<open>getMockData\<close>
  itself, never from \<^verbatim>\<open>apiCall\<close>.
\<close>

theorem withMockFallback_outcomes:
  "(key = [] \<longrightarrow>
      withMockFallback key apiCall getMockData s = (fst (getMockData s), snd (getMockData s), [MockCall])) \<and>
   (key \<noteq> [] \<and> fst (apiCall s) = Inl e \<longrightarrow>
      withMockFallback key apiCall getMockData s =
        (fst (getMockData (snd (apiCall s))), snd (getMockData (snd (apiCall s))), [ApiCall, MockCall])) \<and>
   (fst (withMockFallback key apiCall getMockData s) = Inl e' \<longrightarrow>
      fst (getMockData (if key = [] then s else snd (apiCall s))) = Inl e')"
proof -
  obtain r s1 where a: "apiCall s = (r, s1)" by (cases "apiCall s")
  obtain m s2 where m: "getMockData s = (m, s2)" by (cases "getMockData s")
  obtain m' s3 where m': "getMockData s1 = (m', s3)" by (cases "getMockData s1")
  show ?thesis
    using a m m' by (cases r) (simp_all add: withMockFallback_def)
qed

text \<open>
  The amended claim without a key, with a key and a failing API call, and with a failing
  \<^verbatim>\<open>getMockData\<close>. The state counts the invocations of both functions.
\<close>

theorem withMockFallback_outcomes_witness:
  "withMockFallback [] (always_reject error_503) always_return 0 = (Inr (), 1, [MockCall]) \<and>
   fst (always_reject error_503 0) = Inl error_503 \<and>
   withMockFallback ''k'' (always_reject error_503) always_return 0 = (Inr (), 2, [ApiCall, MockCall]) \<and>
   fst (withMockFallback ''k'' (always_reject error_503) (always_reject mock_failure) 0) = Inl mock_failure \<and>
   fst (always_reject mock_failure (snd (always_reject error_503 0))) = Inl mock_failure"
proof -
  have a: "fst (always_reject error_503 0) = Inl error_503" by (simp add: always_reject_def)
  have b: "fst (withMockFallback ''k'' (always_reject error_503) (always_reject mock_failure) 0) = Inl mock_failure"
    by (simp add: withMockFallback_def always_reject_def)
  show ?thesis
    using a b
      withMockFallback_outcomes[of "[]" "always_reject error_503" always_return 0 error_503 error_503]
      withMockFallback_outcomes[of "''k''" "always_reject error_503" always_return 0 error_503 error_503]
      withMockFallback_outcomes[of "''k''" "always_reject error_503" "always_reject mock_failure" 0 error_503 mock_failure]
    by (simp add: always_reject_def always_return_def)
qed

section \<open>Health Prober: the cache slot\<close>

lemma blank_empty: "key = [] \<or> trim key = [] \<longleftrightarrow> blank key"
  by (auto simp: blank_def trim_def)

lemma check_miss:
  "cache_miss skipCache t1 cache \<Longrightarrow>
   checkApiHealth key skipCache t0 t1 pr cache = freshHealthCheck key t0 pr cache"
  by (auto simp: cache_miss_def checkApiHealth_def split: option.splits)

text \<open>
  Claim C5, as stated, ends: a 429 result is never written to the cache, so the next call
  probes afresh. The slot keeps what it held, and that can be a result that is still
  valid: a forced call (\<^verbatim>\<open>skipCache = true\<close>) one minute after a successful probe gets
  429 and leaves the online result in the slot; the next plain call, a second later,
  returns that cached result and makes no request.
\<close>

theorem health_429_then_cache_hit_counterexample:
  "checkApiHealth ''k'' True 60000 60000 (Response 429) (Some cached_online)
     = (\<lparr>status = Offline, message = ''Rate limit exceeded - using mock data'', timestamp = 60000,
         usingMockData = True, apiKeyConfigured = True\<rparr>, Some cached_online, True) \<and>
   checkApiHealth ''k'' False 61000 61000 (Response 200)
       (fst (snd (checkApiHealth ''k'' True 60000 60000 (Response 429) (Some cached_online))))
     = (cached_online, Some cached_online, False)"
  by (simp add: checkApiHealth_def freshHealthCheck_def isCacheValid_def cached_online_def
      CACHE_DURATION_def trim_def is_space_def)

text \<open>
  Claim C5, amended. (1) With \<^verbatim>\<open>skipCache = false\<close> and a cached result younger than five
  minutes, \<^verbatim>\<open>checkApiHealth\<close> returns the cached result, leaves the slot alone and makes
  no request. (2) On a cache miss every outcome other than a 429 response (no key, 2xx,
  another status, a failed request) writes the returned result into the slot. (3) On a
  cache miss with a key, a 429 response is returned as offline with mock data, after a
  request, and the slot keeps its previous content. (4) So after a 429 on a plain call
  (\<^verbatim>\<open>skipCache = false\<close>), the next call makes a request again, whatever its
  \<^verbatim>\<open>skipCache\<close>, as long as the clock has not gone backwards; after a 429 on a forced
  call this holds only if the slot does not still hold a valid earlier result.
\<close>

theorem health_cache_discipline:
  "(cache = Some c \<and> \<not> skipCache \<and> t1 - timestamp c < 5 * 60 * 1000 \<longrightarrow>
      checkApiHealth key skipCache t0 t1 pr cache = (c, cache, False)) \<and>
   (cache_miss skipCache t1 cache \<and> (blank key \<or> pr \<noteq> Response 429) \<longrightarrow>
      fst (snd (checkApiHealth key skipCache t0 t1 pr cache))
        = Some (fst (checkApiHealth key skipCache t0 t1 pr cache))) \<and>
   (cache_miss skipCache t1 cache \<and> \<not> blank key \<and> pr = Response 429 \<longrightarrow>
      status (fst (checkApiHealth key skipCache t0 t1 pr cache)) = Offline \<and>
      usingMockData (fst (checkApiHealth key skipCache t0 t1 pr cache)) \<and>
      fst (snd (checkApiHealth key skipCache t0 t1 pr cache)) = cache \<and>
      snd (snd (checkApiHealth key skipCache t0 t1 pr cache))) \<and>
   (cache_miss False t1 cache \<and> \<not> blank key \<and> pr = Response 429 \<and> t1 \<le> t1' \<longrightarrow>
      snd (snd (checkApiHealth key skipCache' t0' t1' pr'
                  (fst (snd (checkApiHealth key False t0 t1 pr cache))))))"
proof (intro conjI impI)
  assume "cache = Some c \<and> \<not> skipCache \<and> t1 - timestamp c < 5 * 60 * 1000"
  then show "checkApiHealth key skipCache t0 t1 pr cache = (c, cache, False)"
    by (simp add: checkApiHealth_def isCacheValid_def CACHE_DURATION_def)
next
  assume a: "cache_miss skipCache t1 cache \<and> (blank key \<or> pr \<noteq> Response 429)"
  then show "fst (snd (checkApiHealth key skipCache t0 t1 pr cache))
        = Some (fst (checkApiHealth key skipCache t0 t1 pr cache))"
    by (auto simp: check_miss freshHealthCheck_def blank_empty Let_def split: probe.splits)
next
  assume a: "cache_miss skipCache t1 cache \<and> \<not> blank key \<and> pr = Response 429"
  then show "status (fst (checkApiHealth key skipCache t0 t1 pr cache)) = Offline"
    and "usingMockData (fst (checkApiHealth key skipCache t0 t1 pr cache))"
    and "fst (snd (checkApiHealth key skipCache t0 t1 pr cache)) = cache"
    and "snd (snd (checkApiHealth key skipCache t0 t1 pr cache))"
    by (simp_all add: check_miss freshHealthCheck_def blank_empty)
next
  assume a: "cache_miss False t1 cache \<and> \<not> blank key \<and> pr = Response 429 \<and> t1 \<le> t1'"
  then have first: "fst (snd (checkApiHealth key False t0 t1 pr cache)) = cache"
    by (simp add: check_miss freshHealthCheck_def blank_empty)
  from a have miss': "cache_miss skipCache' t1' cache"
    by (auto simp: cache_miss_def isCacheValid_def split: option.splits)
  from a have nb: "\<not> (key = [] \<or> trim key = [])" by (simp add: blank_empty)
  show "snd (snd (checkApiHealth key skipCache' t0' t1' pr'
                  (fst (snd (checkApiHealth key False t0 t1 pr cache)))))"
    unfolding first check_miss[OF miss'] using nb
    by (auto simp: freshHealthCheck_def Let_def split: probe.splits)
qed

text \<open>
  The amended claim at a cache hit one second after a successful probe, at a first probe
  answered 200, and at a first probe answered 429 followed by a second call.
\<close>

theorem health_cache_discipline_witness:
  "checkApiHealth ''k'' False 1000 1000 (Response 200) (Some cached_online)
     = (cached_online, Some cached_online, False) \<and>
   cache_miss False 1000 None \<and> \<not> blank ''k'' \<and>
   fst (snd (checkApiHealth ''k'' False 1000 1000 (Response 200) None))
     = Some (fst (checkApiHealth ''k'' False 1000 1000 (Response 200) None)) \<and>
   status (fst (checkApiHealth ''k'' False 1000 1000 (Response 429) None)) = Offline \<and>
   fst (snd (checkApiHealth ''k'' False 1000 1000 (Response 429) None)) = None \<and>
   snd (snd (checkApiHealth ''k'' False 2000 2000 (Response 200)
               (fst (snd (checkApiHealth ''k'' False 1000 1000 (Response 429) None)))))"
proof -
  have m: "cache_miss False 1000 None" by (simp add: cache_miss_def)
  have k: "\<not> blank ''k''" by (simp add: blank_def trim_def is_space_def)
  have t: "(1000::int) - timestamp cached_online < 5 * 60 * 1000" by (simp add: cached_online_def)
  have n: "Response 200 \<noteq> Response 429" by simp
  have l: "(1000::int) \<le> 2000" by simp
  note hit = health_cache_discipline[where cache = "Some cached_online" and c = cached_online
        and skipCache = False and ?t1.0 = 1000 and key = "''k''" and ?t0.0 = 1000 and pr = "Response 200"]
  note ok = health_cache_discipline[where cache = None and skipCache = False and ?t1.0 = 1000
        and key = "''k''" and ?t0.0 = 1000 and pr = "Response 200"]
  note limited = health_cache_discipline[where cache = None and skipCache = False and ?t1.0 = 1000
        and key = "''k''" and ?t0.0 = 1000 and pr = "Response 429" and ?t1' = 2000
        and skipCache' = False and ?t0' = 2000 and pr' = "Response 200"]
  have w1: "checkApiHealth ''k'' False 1000 1000 (Response 200) (Some cached_online)
     = (cached_online, Some cached_online, False)"
    using hit t by blast
  have w2: "fst (snd (checkApiHealth ''k'' False 1000 1000 (Response 200) None))
     = Some (fst (checkApiHealth ''k'' False 1000 1000 (Response 200) None))"
    using ok m n by blast
  have w3: "status (fst (checkApiHealth ''k'' False 1000 1000 (Response 429) None)) = Offline"
    and w4: "fst (snd (checkApiHealth ''k'' False 1000 1000 (Response 429) None)) = None"
    using limited m k by blast+
  have w5: "snd (snd (checkApiHealth ''k'' False 2000 2000 (Response 200)
               (fst (snd (checkApiHealth ''k'' False 1000 1000 (Response 429) None)))))"
    using limited m k l by blast
  from m k w1 w2 w3 w4 w5 show ?thesis by blast
qed

section \<open>Flight Normalizer: price, stops and duration\<close>

lemma first_truthy_numstr_cases:
  "first_truthy_numstr as lit = lit \<or> Some (first_truthy_numstr as lit) \<in> set as"
proof (cases "filter truthy_numstr as")
  case Nil
  then show ?thesis by (simp add: first_truthy_numstr_def)
next
  case (Cons a rest)
  then have "a \<in> set (filter truthy_numstr as)" by simp
  then have "a \<in> set as" by simp
  with Cons show ?thesis by (cases a) (auto simp: first_truthy_numstr_def)
qed

lemma price_normalize:
  "price (normalizeFlightObject fmt now r opts) =
     parseFloat_String (first_truthy_numstr [raw_price r, raw_amount r, raw_total r, raw_fare r] (NumV (Fin 0)))"
  by (simp add: normalizeFlightObject_def Let_def)

text \<open>The later operands of the \<^verbatim>\<open>??\<close> chain are never reached: \<^verbatim>\<open>stopsCount\<close> is not read.\<close>

lemma stops_normalize:
  "stops (normalizeFlightObject fmt now r opts) =
     (case raw_stops r of
        Some n \<Rightarrow> n
      | None \<Rightarrow> (case raw_segments r of
                   Some segs \<Rightarrow> if length segs \<le> 1 then Fin 0 else Fin (of_nat (length segs) - 1)
                 | None \<Rightarrow> Fin 0))"
  by (auto simp: normalizeFlightObject_def Let_def nullish_or_def Math_max_def js_max2_def
      split: option.splits)

text \<open>
  Claim C1, as stated: every flight the normalizer produces has \<open>price \<ge> 0\<close> and
  \<open>stops \<ge> 0\<close>. An explicit \<^verbatim>\<open>stops\<close> is copied unclamped and a price is parsed without
  a check of its sign: the raw record with \<^verbatim>\<open>price: -5\<close> and \<^verbatim>\<open>stops: -1\<close> gives a flight
  with price \<open>-5\<close> and \<open>-1\<close> stops.
\<close>

theorem normalizer_negative_counterexample:
  "\<not> js_ge (price (normalizeFlightObject plain_fmt 0
              (empty_raw\<lparr>raw_price := Some (NumV (Fin (- 5))), raw_stops := Some (Fin (- 1))\<rparr>)
              no_options)) (Fin 0) \<and>
   \<not> js_ge (stops (normalizeFlightObject plain_fmt 0
              (empty_raw\<lparr>raw_price := Some (NumV (Fin (- 5))), raw_stops := Some (Fin (- 1))\<rparr>)
              no_options)) (Fin 0)"
  by (simp add: price_normalize stops_normalize empty_raw_def first_truthy_numstr_def truthy_numstr_def
      truthy_num_def parseFloat_String_def js_ge_def js_le_def)

text \<open>
  Claim C1, amended: for every raw record whose \<^verbatim>\<open>stops\<close> field is absent or a number
  \<open>\<ge> 0\<close>, and whose supplied \<^verbatim>\<open>price\<close>, \<^verbatim>\<open>amount\<close>, \<^verbatim>\<open>total\<close> and \<^verbatim>\<open>fare\<close> fields are
  numbers \<open>\<ge> 0\<close> or strings that \<^verbatim>\<open>parseFloat\<close> reads as numbers \<open>\<ge> 0\<close>, and for every
  options argument, the normalized flight has \<open>price \<ge> 0\<close> and \<open>stops \<ge> 0\<close>.
\<close>

theorem normalizer_nonnegative:
  assumes "\<forall>n. raw_stops r = Some n \<longrightarrow> js_ge n (Fin 0)"
    and "\<forall>v. Some v \<in> {raw_price r, raw_amount r, raw_total r, raw_fare r} \<longrightarrow> nonneg_numstr v"
  shows "js_ge (price (normalizeFlightObject fmt now r opts)) (Fin 0) \<and>
         js_ge (stops (normalizeFlightObject fmt now r opts)) (Fin 0)"
proof
  let ?v = "first_truthy_numstr [raw_price r, raw_amount r, raw_total r, raw_fare r] (NumV (Fin 0))"
  have "nonneg_numstr ?v"
    using first_truthy_numstr_cases[of "[raw_price r, raw_amount r, raw_total r, raw_fare r]" "NumV (Fin 0)"]
      assms(2)
    by (auto simp: nonneg_numstr_def js_ge_def js_le_def)
  then show "js_ge (price (normalizeFlightObject fmt now r opts)) (Fin 0)"
    by (simp add: price_normalize parseFloat_String_def nonneg_numstr_def split: numstr.splits)
  show "js_ge (stops (normalizeFlightObject fmt now r opts)) (Fin 0)"
    using assms(1) by (auto simp: stops_normalize js_ge_def js_le_def split: option.splits)
qed

lemma parseFloat_199: "parseFloat ''199.99'' = Fin (19999 / 100)"
  by (simp add: parseFloat_def trim_start_def is_space_def parse_signed_def strip_sign_def
      parse_unsigned_decimal_def is_digit_def parse_exponent_def dec_val_def digit_val_def pow10_def)

text \<open>The amended claim at a record with the price string \<^verbatim>\<open>"199.99"\<close> and one stop.\<close>

theorem normalizer_nonnegative_witness:
  "nonneg_numstr (StrV ''199.99'') \<and> js_ge (Fin 1) (Fin 0) \<and>
   js_ge (price (normalizeFlightObject plain_fmt 0
            (empty_raw\<lparr>raw_price := Some (StrV ''199.99''), raw_stops := Some (Fin 1)\<rparr>) no_options)) (Fin 0) \<and>
   js_ge (stops (normalizeFlightObject plain_fmt 0
            (empty_raw\<lparr>raw_price := Some (StrV ''199.99''), raw_stops := Some (Fin 1)\<rparr>) no_options)) (Fin 0)"
proof -
  have p: "nonneg_numstr (StrV ''199.99'')"
    by (simp add: nonneg_numstr_def parseFloat_199 js_ge_def js_le_def)
  have s: "js_ge (Fin 1) (Fin 0)" by (simp add: js_ge_def js_le_def)
  show ?thesis
    using p s
      normalizer_nonnegative[of "empty_raw\<lparr>raw_price := Some (StrV ''199.99''), raw_stops := Some (Fin 1)\<rparr>"
        plain_fmt 0 no_options]
    by (simp add: empty_raw_def)
qed

lemma Number_str_clock:
  "Number_str ''22'' = Fin 22" "Number_str ''00'' = Fin 0" "Number_str ''02'' = Fin 2"
  by (simp_all add: Number_str_def trim_def is_space_def parse_signed_def strip_sign_def
      parse_unsigned_decimal_def is_digit_def parse_exponent_def dec_val_def digit_val_def pow10_def)

lemma js_show_digit:
  "js_show fmt (Fin 4) = ''4''" "js_show fmt (Fin 0) = ''0''"
  by (simp_all add: js_show_def show_nat.simps digit_char_def)

lemma backfill_22_02: "backfill_duration fmt ''22:00'' ''02:00'' = ''4h 0m''"
  by (simp add: backfill_duration_def Number_str_clock element_or_NaN_def js_sub_def
      trunc_rat_def js_show_digit)

text \<open>
  Claim C8: for every raw record with \<^verbatim>\<open>departureTime\<close> \<^verbatim>\<open>"22:00"\<close>, \<^verbatim>\<open>arrivalTime\<close>
  \<^verbatim>\<open>"02:00"\<close> and no duration under any of the fallback names (\<^verbatim>\<open>duration\<close>,
  \<^verbatim>\<open>totalDuration\<close>, \<^verbatim>\<open>journey.duration\<close>, \<^verbatim>\<open>time\<close>), whatever its other fields and the
  options, the normalized duration is exactly \<^verbatim>\<open>"4h 0m"\<close>.
\<close>

theorem backfill_wraps_past_midnight:
  assumes "raw_departureTime r = Some ''22:00''"
    and "raw_arrivalTime r = Some ''02:00''"
    and "raw_duration r = None"
    and "raw_totalDuration r = None"
    and "\<forall>j. raw_journey r = Some j \<longrightarrow> journey_duration j = None"
    and "raw_time r = None"
  shows "duration (normalizeFlightObject fmt now r opts) = ''4h 0m''"
proof -
  have j: "Option.bind (raw_journey r) journey_duration = None"
    using assms(5) by (cases "raw_journey r") auto
  show ?thesis
    using assms(1,2,3,4,6) j
    by (simp add: normalizeFlightObject_def Let_def first_truthy_def truthy_str_def backfill_22_02)
qed

text \<open>The claim at the record that has the two times and a journey object without duration.\<close>

theorem backfill_wraps_past_midnight_witness:
  "raw_departureTime (empty_raw\<lparr>raw_departureTime := Some ''22:00'', raw_arrivalTime := Some ''02:00'',
      raw_journey := Some (Journey None)\<rparr>) = Some ''22:00'' \<and>
   duration (normalizeFlightObject plain_fmt 0
     (empty_raw\<lparr>raw_departureTime := Some ''22:00'', raw_arrivalTime := Some ''02:00'',
        raw_journey := Some (Journey None)\<rparr>) no_options) = ''4h 0m''"
  using backfill_wraps_past_midnight[of "empty_raw\<lparr>raw_departureTime := Some ''22:00'',
      raw_arrivalTime := Some ''02:00'', raw_journey := Some (Journey None)\<rparr>" plain_fmt 0 no_options]
  by (simp add: empty_raw_def)

section \<open>Response envelope\<close>

text \<open>
  Claim C7, as stated: the contained array is returned for a direct array and for the
  shapes \<^verbatim>\<open>{data: {data: [...]}}\<close> and \<^verbatim>\<open>{data: {flights: [...]}}\<close>, and the empty array for
  every other input. The function has a further fallback: the Sky Scrapper envelope
  \<^verbatim>\<open>{data: [...]}\<close> is none of the three shapes, and its array is returned.
\<close>

theorem normalizeFlightResponse_data_array_counterexample:
  "\<not> listed_shape (JObj [(''data'', JArr [JStr ''f1''])]) \<and>
   normalizeFlightResponse (JObj [(''data'', JArr [JStr ''f1''])]) = [JStr ''f1'']"
  by (simp add: listed_shape_def normalizeFlightResponse_def isArray_def elements_def property_def
      truthy_json_def typeof_object_def has_property_def)

text \<open>
  Claim C7, amended: for every input, \<^verbatim>\<open>normalizeFlightResponse\<close> returns the input itself
  when it is an array; else the array \<^verbatim>\<open>data.data\<close> when there is one; else the array
  \<^verbatim>\<open>data.flights\<close> when there is one; else the array \<^verbatim>\<open>data\<close> when there is one; and the
  empty array for every input of none of these four shapes.
\<close>

theorem normalizeFlightResponse_shapes:
  "normalizeFlightResponse v =
     (if isArray v then elements v
      else if isArray (property (property v ''data'') ''data'')
        then elements (property (property v ''data'') ''data'')
      else if isArray (property (property v ''data'') ''flights'')
        then elements (property (property v ''data'') ''flights'')
      else if isArray (property v ''data'') then elements (property v ''data'')
      else [])"
  by (auto simp: normalizeFlightResponse_def isArray_def elements_def property_def truthy_json_def
      typeof_object_def has_property_def Let_def split: json.splits option.splits)

section \<open>Price range\<close>

lemma js_le_refl: "a \<noteq> NaN \<Longrightarrow> js_le a a"
  by (simp add: js_le_def)

lemma js_le_trans: "js_le a b \<Longrightarrow> js_le b c \<Longrightarrow> js_le a c"
  by (cases a; cases b; cases c) (auto simp: js_le_def)

lemma js_le_antisym: "js_le a b \<Longrightarrow> js_le b a \<Longrightarrow> a = b"
  by (cases a; cases b) (auto simp: js_le_def)

lemma js_le_total: "a \<noteq> NaN \<Longrightarrow> b \<noteq> NaN \<Longrightarrow> js_le a b \<or> js_le b a"
  by (cases a; cases b) (auto simp: js_le_def)

lemma js_min2_le: "a \<noteq> NaN \<Longrightarrow> b \<noteq> NaN \<Longrightarrow>
  js_min2 a b \<in> {a, b} \<and> js_le (js_min2 a b) a \<and> js_le (js_min2 a b) b"
  by (cases a; cases b) (auto simp: js_min2_def js_le_def)

lemma js_max2_ge: "a \<noteq> NaN \<Longrightarrow> b \<noteq> NaN \<Longrightarrow>
  js_max2 a b \<in> {a, b} \<and> js_le a (js_max2 a b) \<and> js_le b (js_max2 a b)"
  by (cases a; cases b) (auto simp: js_max2_def js_le_def)

lemma foldl_min2:
  "a \<noteq> NaN \<Longrightarrow> \<forall>x\<in>set xs. x \<noteq> NaN \<Longrightarrow>
   foldl js_min2 a xs \<in> insert a (set xs) \<and> js_le (foldl js_min2 a xs) a \<and>
   (\<forall>x\<in>set xs. js_le (foldl js_min2 a xs) x)"
proof (induction xs arbitrary: a)
  case Nil
  then show ?case by (simp add: js_le_refl)
next
  case (Cons x xs)
  let ?m = "js_min2 a x"
  from Cons.prems have m: "?m \<in> {a, x}" "js_le ?m a" "js_le ?m x"
    using js_min2_le[of a x] by auto
  then have "?m \<noteq> NaN" by (auto simp: js_le_def)
  from Cons.IH[OF this] Cons.prems(2)
  have ih: "foldl js_min2 ?m xs \<in> insert ?m (set xs)" "js_le (foldl js_min2 ?m xs) ?m"
    "\<forall>y\<in>set xs. js_le (foldl js_min2 ?m xs) y" by auto
  show ?case using ih m by (auto intro: js_le_trans)
qed

lemma foldl_max2:
  "a \<noteq> NaN \<Longrightarrow> \<forall>x\<in>set xs. x \<noteq> NaN \<Longrightarrow>
   foldl js_max2 a xs \<in> insert a (set xs) \<and> js_le a (foldl js_max2 a xs) \<and>
   (\<forall>x\<in>set xs. js_le x (foldl js_max2 a xs))"
proof (induction xs arbitrary: a)
  case Nil
  then show ?case by (simp add: js_le_refl)
next
  case (Cons x xs)
  let ?m = "js_max2 a x"
  from Cons.prems have m: "?m \<in> {a, x}" "js_le a ?m" "js_le x ?m"
    using js_max2_ge[of a x] by auto
  then have "?m \<noteq> NaN" by (auto simp: js_le_def)
  from Cons.IH[OF this] Cons.prems(2)
  have ih: "foldl js_max2 ?m xs \<in> insert ?m (set xs)" "js_le ?m (foldl js_max2 ?m xs)"
    "\<forall>y\<in>set xs. js_le y (foldl js_max2 ?m xs)" by auto
  show ?case using ih m by (auto intro: js_le_trans)
qed

lemma Math_min_least:
  assumes "lo \<in> set xs" and "\<forall>x\<in>set xs. js_le lo x"
  shows "Math_min xs = lo"
proof -
  have nn: "\<forall>x\<in>set xs. x \<noteq> NaN" using assms(2) by (auto simp: js_le_def)
  note f = foldl_min2[of PInf xs, OF _ nn]
  have le: "js_le (Math_min xs) lo" using f assms(1) by (simp add: Math_min_def)
  have "Math_min xs \<in> insert PInf (set xs)" using f by (simp add: Math_min_def)
  then have "js_le lo (Math_min xs)"
  proof
    assume "Math_min xs = PInf"
    with le show ?thesis by (cases lo) (auto simp: js_le_def)
  next
    assume "Math_min xs \<in> set xs"
    with assms(2) show ?thesis by blast
  qed
  with le show ?thesis by (rule js_le_antisym)
qed

lemma Math_max_greatest:
  assumes "hi \<in> set xs" and "\<forall>x\<in>set xs. js_le x hi"
  shows "Math_max xs = hi"
proof -
  have nn: "\<forall>x\<in>set xs. x \<noteq> NaN" using assms(2) by (auto simp: js_le_def)
  note f = foldl_max2[of NInf xs, OF _ nn]
  have le: "js_le hi (Math_max xs)" using f assms(1) by (simp add: Math_max_def)
  have "Math_max xs \<in> insert NInf (set xs)" using f by (simp add: Math_max_def)
  then have "js_le (Math_max xs) hi"
  proof
    assume "Math_max xs = NInf"
    with le show ?thesis by (cases hi) (auto simp: js_le_def)
  next
    assume "Math_max xs \<in> set xs"
    with assms(2) show ?thesis by blast
  qed
  with le show ?thesis by (rule js_le_antisym[rotated])
qed

lemma Math_max_0: "Math_max [Fin 0, x] = js_max2 (Fin 0) x"
  by (simp add: Math_max_def js_max2_def)

text \<open>
  Claim C10: \<^verbatim>\<open>calculatePriceRange\<close> depends only on the strictly positive entries of
  the list; without one (the empty list included) it returns \<open>{min: 0, max: 10000}\<close>;
  otherwise, with \<open>lo\<close> the least and \<open>hi\<close> the greatest positive entry, it returns
  \<open>min = max(0, floor(lo / 100) * 100)\<close> and \<open>max = ceil(hi / 100) * 100\<close>; the prices
  120, 455, 999 give \<open>{min: 100, max: 1000}\<close>. The helper of the search context,
  \<^verbatim>\<open>calculatePriceRangeFromFlights\<close>, is this function on the prices of the flights.
\<close>

theorem calculatePriceRange_positive_entries:
  "calculatePriceRange ps = calculatePriceRange (filter positive ps) \<and>
   ((\<forall>p\<in>set ps. \<not> positive p) \<longrightarrow>
      calculatePriceRange ps = \<lparr>range_min = Fin 0, range_max = Fin 10000\<rparr>) \<and>
   (lo \<in> set ps \<and> positive lo \<and> (\<forall>p\<in>set ps. positive p \<longrightarrow> js_le lo p) \<and>
    hi \<in> set ps \<and> positive hi \<and> (\<forall>p\<in>set ps. positive p \<longrightarrow> js_le p hi) \<longrightarrow>
      calculatePriceRange ps =
        \<lparr>range_min = js_max2 (Fin 0) (js_times (js_floor (js_over lo 100)) 100),
         range_max = js_times (js_ceil (js_over hi 100)) 100\<rparr>) \<and>
   calculatePriceRange [Fin 120, Fin 455, Fin 999] = \<lparr>range_min = Fin 100, range_max = Fin 1000\<rparr> \<and>
   calculatePriceRangeFromFlights flights = calculatePriceRange (map price flights)"
proof (intro conjI impI)
  have pos: "(\<lambda>p. js_gt p (Fin 0)) = positive" by (simp add: positive_def fun_eq_iff)
  show "calculatePriceRange ps = calculatePriceRange (filter positive ps)"
    by (simp add: calculatePriceRange_def pos)
  show "calculatePriceRange [Fin 120, Fin 455, Fin 999] = \<lparr>range_min = Fin 100, range_max = Fin 1000\<rparr>"
    by (simp add: calculatePriceRange_def js_gt_def Math_min_def Math_max_def js_min2_def js_max2_def
        floor_eq_iff ceiling_eq_iff)
  show "calculatePriceRangeFromFlights flights = calculatePriceRange (map price flights)"
    by (simp add: calculatePriceRangeFromFlights_def calculatePriceRange_def defaultFilters_def)
  {
    assume "\<forall>p\<in>set ps. \<not> positive p"
    then have "filter (\<lambda>p. js_gt p (Fin 0)) ps = []" by (simp add: pos filter_empty_conv)
    then show "calculatePriceRange ps = \<lparr>range_min = Fin 0, range_max = Fin 10000\<rparr>"
      by (simp add: calculatePriceRange_def)
  }
  {
    assume a: "lo \<in> set ps \<and> positive lo \<and> (\<forall>p\<in>set ps. positive p \<longrightarrow> js_le lo p) \<and>
      hi \<in> set ps \<and> positive hi \<and> (\<forall>p\<in>set ps. positive p \<longrightarrow> js_le p hi)"
    let ?v = "filter (\<lambda>p. js_gt p (Fin 0)) ps"
    have v: "?v = filter positive ps" by (simp add: pos)
    have lo: "Math_min ?v = lo" using a by (intro Math_min_least) (auto simp: v)
    have hi: "Math_max ?v = hi" using a by (intro Math_max_greatest) (auto simp: v)
    have ne: "length ?v \<noteq> 0" using a by (auto simp: v filter_empty_conv)
    show "calculatePriceRange ps =
        \<lparr>range_min = js_max2 (Fin 0) (js_times (js_floor (js_over lo 100)) 100),
         range_max = js_times (js_ceil (js_over hi 100)) 100\<rparr>"
      using ne by (simp add: calculatePriceRange_def Let_def lo hi Math_max_0)
  }
qed

text \<open>The claim at the prices 120, 455, 999 and at a list without a positive price.\<close>

theorem calculatePriceRange_positive_entries_witness:
  "positive (Fin 120) \<and> js_le (Fin 120) (Fin 455) \<and> js_le (Fin 120) (Fin 999) \<and>
   positive (Fin 999) \<and> js_le (Fin 455) (Fin 999) \<and>
   calculatePriceRange [Fin 120, Fin 455, Fin 999] =
     \<lparr>range_min = js_max2 (Fin 0) (js_times (js_floor (js_over (Fin 120) 100)) 100),
      range_max = js_times (js_ceil (js_over (Fin 999) 100)) 100\<rparr> \<and>
   \<not> positive (Fin 0) \<and> \<not> positive NaN \<and> \<not> positive (Fin (- 3)) \<and>
   calculatePriceRange [Fin 0, NaN, Fin (- 3)] = \<lparr>range_min = Fin 0, range_max = Fin 10000\<rparr>"
proof -
  have h1: "Fin 120 \<in> set [Fin 120, Fin 455, Fin 999]" "Fin 999 \<in> set [Fin 120, Fin 455, Fin 999]"
    by simp_all
  have h2: "positive (Fin 120)" "positive (Fin 999)"
    by (simp_all add: positive_def js_gt_def)
  have l: "js_le (Fin 120) (Fin 455)" "js_le (Fin 120) (Fin 999)" "js_le (Fin 455) (Fin 999)"
    by (simp_all add: js_le_def)
  have h3: "\<forall>p\<in>set [Fin 120, Fin 455, Fin 999]. positive p \<longrightarrow> js_le (Fin 120) p"
    by (simp add: js_le_def)
  have h4: "\<forall>p\<in>set [Fin 120, Fin 455, Fin 999]. positive p \<longrightarrow> js_le p (Fin 999)"
    by (simp add: js_le_def)
  have n: "\<not> positive (Fin 0)" "\<not> positive NaN" "\<not> positive (Fin (- 3))"
    by (simp_all add: positive_def js_gt_def)
  then have h5: "\<forall>p\<in>set [Fin 0, NaN, Fin (- 3)]. \<not> positive p"
    by simp
  note range = calculatePriceRange_positive_entries[where ps = "[Fin 120, Fin 455, Fin 999]"
      and lo = "Fin 120" and hi = "Fin 999"]
  note none = calculatePriceRange_positive_entries[where ps = "[Fin 0, NaN, Fin (- 3)]"]
  have w1: "calculatePriceRange [Fin 120, Fin 455, Fin 999] =
     \<lparr>range_min = js_max2 (Fin 0) (js_times (js_floor (js_over (Fin 120) 100)) 100),
      range_max = js_times (js_ceil (js_over (Fin 999) 100)) 100\<rparr>"
    using range h1 h2 h3 h4 by blast
  have w2: "calculatePriceRange [Fin 0, NaN, Fin (- 3)] = \<lparr>range_min = Fin 0, range_max = Fin 10000\<rparr>"
    using none h5 by blast
  from h2 l n w1 w2 show ?thesis by blast
qed

section \<open>Filter/Sort Engine\<close>

lemma apply_filters_filter: "apply_filters filters flights = filter (passes filters) flights"
  by (auto simp: apply_filters_def passes_def Let_def intro!: filter_cong)

lemma js_sub_antisym: "js_gt (js_sub a b) (Fin 0) \<Longrightarrow> \<not> js_gt (js_sub b a) (Fin 0)"
  by (cases a; cases b) (auto simp: js_sub_def js_gt_def)

lemma compare_cheapest_antisym:
  "js_gt (compare_cheapest a b) (Fin 0) \<Longrightarrow> \<not> js_gt (compare_cheapest b a) (Fin 0)"
  unfolding compare_cheapest_def by (rule js_sub_antisym)

lemma compare_fastest_antisym:
  "js_gt (compare_fastest a b) (Fin 0) \<Longrightarrow> \<not> js_gt (compare_fastest b a) (Fin 0)"
  unfolding compare_fastest_def by (rule js_sub_antisym)

lemma compare_best_antisym:
  "js_gt (compare_best a b) (Fin 0) \<Longrightarrow> \<not> js_gt (compare_best b a) (Fin 0)"
  using js_sub_antisym[of "price a" "price b"]
  by (auto simp: compare_best_def js_gt_def split: if_splits)

lemma successively_insort:
  assumes anti: "\<And>a b. js_gt (cmp a b) (Fin 0) \<Longrightarrow> \<not> js_gt (cmp b a) (Fin 0)"
  shows "successively (order_respecting cmp) ys \<Longrightarrow> successively (order_respecting cmp) (js_insort cmp x ys)"
proof (induction ys)
  case Nil
  then show ?case by simp
next
  case (Cons y ys)
  show ?case
  proof (cases "js_gt (cmp x y) (Fin 0)")
    case False
    with Cons.prems show ?thesis by (simp add: order_respecting_def)
  next
    case True
    then have yx: "order_respecting cmp y x" using anti by (simp add: order_respecting_def)
    from Cons.prems have tl: "successively (order_respecting cmp) ys"
      by (cases ys) simp_all
    note ih = Cons.IH[OF tl]
    show ?thesis
    proof (cases ys)
      case Nil
      with True yx show ?thesis by simp
    next
      case (Cons z zs)
      with Cons.prems have yz: "order_respecting cmp y z" by simp
      from ih yx yz True Cons show ?thesis by (auto split: if_splits)
    qed
  qed
qed

lemma successively_js_sort:
  assumes "\<And>a b. js_gt (cmp a b) (Fin 0) \<Longrightarrow> \<not> js_gt (cmp b a) (Fin 0)"
  shows "successively (order_respecting cmp) (js_sort cmp xs)"
  by (induction xs) (simp_all add: js_sort_def successively_insort[OF assms])

lemma js_sort_fixed:
  "successively (order_respecting cmp) xs \<Longrightarrow> js_sort cmp xs = xs"
proof (induction xs)
  case Nil
  then show ?case by (simp add: js_sort_def)
next
  case (Cons x xs)
  then have tl: "js_sort cmp xs = xs" by (cases xs) simp_all
  have "js_sort cmp (x # xs) = js_insort cmp x (js_sort cmp xs)" by (simp add: js_sort_def)
  also have "\<dots> = js_insort cmp x xs" by (simp add: tl)
  also have "\<dots> = x # xs" using Cons.prems by (cases xs) (simp_all add: order_respecting_def)
  finally show ?case .
qed

lemma set_js_insort: "set (js_insort cmp x ys) = insert x (set ys)"
  by (induction ys) auto

lemma set_js_sort: "set (js_sort cmp xs) = set xs"
  by (induction xs) (simp_all add: js_sort_def set_js_insort)

lemma js_sort_idem:
  assumes "\<And>a b. js_gt (cmp a b) (Fin 0) \<Longrightarrow> \<not> js_gt (cmp b a) (Fin 0)"
  shows "js_sort cmp (apply_filters filters (js_sort cmp (apply_filters filters flights)))
         = js_sort cmp (apply_filters filters flights)"
proof -
  let ?r = "js_sort cmp (apply_filters filters flights)"
  have "\<forall>f\<in>set ?r. passes filters f" by (simp add: set_js_sort apply_filters_filter)
  then have "apply_filters filters ?r = ?r" by (simp add: apply_filters_filter)
  then show ?thesis by (simp add: js_sort_fixed successively_js_sort[OF assms])
qed

text \<open>
  On the insertion-sort engine the derivation is idempotent on every list: every flight
  of the output passes the filters again, and the output is a fixed point of that sort
  because none of the three comparators answers ``greater'' in both directions. This is
  a property of that engine; the merge-sort engine below does not share it.
\<close>

lemma insertion_sort_engine_idempotent:
  "getFilteredFlights (getFilteredFlights flights filters sortOption) filters sortOption
     = getFilteredFlights flights filters sortOption"
proof (cases "flights = []")
  case True
  then show ?thesis by (simp add: getFilteredFlights_def)
next
  case False
  show ?thesis
  proof (cases sortOption)
    case Cheapest
    with False show ?thesis
      by (simp add: getFilteredFlights_def js_sort_idem[of compare_cheapest, OF compare_cheapest_antisym])
  next
    case Fastest
    with False show ?thesis
      by (simp add: getFilteredFlights_def js_sort_idem[of compare_fastest, OF compare_fastest_antisym])
  next
    case Best
    with False show ?thesis
      by (simp add: getFilteredFlights_def js_sort_idem[of compare_best, OF compare_best_antisym])
  next
    case ByDuration
    with False show ?thesis
      by (simp add: getFilteredFlights_def js_sort_idem[of compare_best, OF compare_best_antisym])
  next
    case ByDeparture
    with False show ?thesis
      by (simp add: getFilteredFlights_def js_sort_idem[of compare_best, OF compare_best_antisym])
  qed
qed

lemma num_key_less: "a \<noteq> NaN \<Longrightarrow> b \<noteq> NaN \<Longrightarrow> js_gt (js_sub a b) (Fin 0) \<longleftrightarrow> num_key b < num_key a"
  by (cases a; cases b) (auto simp: js_sub_def js_gt_def num_key_def)

lemma nonstop_or_stops:
  "js_ge s (Fin 0) \<Longrightarrow> js_gt s (Fin 0) \<longleftrightarrow> \<not> js_eq s (Fin 0)"
  by (cases s) (auto simp: js_ge_def js_le_def js_gt_def js_eq_def)

lemma compare_best_key:
  assumes "well_formed a" and "well_formed b"
  shows "js_gt (compare_best a b) (Fin 0) \<longleftrightarrow> \<not> best_key a \<le> best_key b"
proof -
  have ga: "js_gt (stops a) (Fin 0) \<longleftrightarrow> \<not> js_eq (stops a) (Fin 0)"
    using assms(1) by (intro nonstop_or_stops) (simp add: well_formed_def)
  have gb: "js_gt (stops b) (Fin 0) \<longleftrightarrow> \<not> js_eq (stops b) (Fin 0)"
    using assms(2) by (intro nonstop_or_stops) (simp add: well_formed_def)
  have p: "js_gt (js_sub (price a) (price b)) (Fin 0) \<longleftrightarrow> num_key (price b) < num_key (price a)"
    using assms by (intro num_key_less) (auto simp: well_formed_def)
  have c: "js_gt (Fin 1) (Fin 0)" "\<not> js_gt (Fin (- 1)) (Fin 0)"
    by (simp_all add: js_gt_def)
  show ?thesis
    using p c by (auto simp: compare_best_def best_key_def ga gb not_le)
qed

text \<open>
  A comparator that agrees with a linear order on keys makes the model sort the stable
  sort by that key (\<open>sort_key\<close> of the list library): the result every engine returns.
\<close>

lemma js_insort_key:
  assumes "\<And>a b. ok a \<Longrightarrow> ok b \<Longrightarrow> js_gt (cmp a b) (Fin 0) \<longleftrightarrow> \<not> key a \<le> key b"
  shows "ok x \<Longrightarrow> \<forall>y\<in>set ys. ok y \<Longrightarrow> js_insort cmp x ys = insort_key key x ys"
  by (induction ys) (auto simp: assms)

lemma js_sort_key:
  assumes "\<And>a b. ok a \<Longrightarrow> ok b \<Longrightarrow> js_gt (cmp a b) (Fin 0) \<longleftrightarrow> \<not> key a \<le> key b"
  shows "\<forall>x\<in>set xs. ok x \<Longrightarrow> js_sort cmp xs = sort_key key xs"
proof (induction xs)
  case Nil
  then show ?case by (simp add: js_sort_def)
next
  case (Cons x xs)
  then have ih: "js_sort cmp xs = sort_key key xs" by simp
  have "js_sort cmp (x # xs) = js_insort cmp x (js_sort cmp xs)"
    by (simp add: js_sort_def)
  also have "\<dots> = insort_key key x (js_sort cmp xs)"
    using Cons.prems by (intro js_insort_key[where ok = ok] assms) (simp_all add: set_js_sort)
  finally show ?case by (simp add: ih)
qed

lemma js_sort_best_key:
  "\<forall>x\<in>set xs. well_formed x \<Longrightarrow> js_sort compare_best xs = sort_key best_key xs"
  by (rule js_sort_key[where ok = well_formed]) (simp_all add: compare_best_key)

lemma passes_price_not_NaN: "passes filters f \<Longrightarrow> price f \<noteq> NaN"
  by (auto simp: passes_def js_ge_def js_le_def)

text \<open>
  \<^verbatim>\<open>parseDuration\<close> always returns a natural number of minutes: the two groups of a match
  are non-empty runs of decimal digits, which \<^verbatim>\<open>parseInt\<close> reads in base 10.
\<close>

lemma digit_not_space: "is_digit c \<Longrightarrow> \<not> is_space c"
  by (auto simp: is_digit_def is_space_def)

lemma digit_not_sign: "is_digit c \<Longrightarrow> c \<noteq> CHR ''+'' \<and> c \<noteq> CHR ''-'' \<and> c \<noteq> CHR ''x'' \<and> c \<noteq> CHR ''X''"
  by (auto simp: is_digit_def)

lemma digit_radix_10: "is_digit c \<Longrightarrow> radix_ok 10 c \<and> digit_of c = Some (digit_val c)"
  by (auto simp: is_digit_def radix_ok_def digit_of_def digit_val_def Let_def)

lemma radix_val_digits: "\<forall>c\<in>set ds. is_digit c \<Longrightarrow> foldl (\<lambda>a c. 10 * a + (case digit_of c of Some v \<Rightarrow> v | None \<Rightarrow> 0)) a ds
   = foldl (\<lambda>a c. 10 * a + digit_val c) a ds"
  by (induction ds arbitrary: a) (simp_all add: digit_radix_10)

lemma parseInt_digits:
  assumes "ds \<noteq> []" and "\<forall>c\<in>set ds. is_digit c"
  shows "parseInt ds = Fin (of_nat (dec_val ds))"
proof -
  obtain c cs where ds: "ds = c # cs" using assms(1) by (cases ds) auto
  have c: "is_digit c" using assms(2) ds by simp
  have t: "trim_start ds = ds" using c ds by (simp add: trim_start_def digit_not_space)
  have s: "strip_sign ds = (False, ds)" using c ds digit_not_sign[of c] by (simp add: strip_sign_def)
  have x: "take 2 ds \<noteq> ''0x'' \<and> take 2 ds \<noteq> ''0X''"
  proof (cases cs)
    case Nil
    with ds show ?thesis by simp
  next
    case (Cons d rest)
    with assms(2) ds have "is_digit d" by simp
    with Cons ds digit_not_sign[of d] show ?thesis by simp
  qed
  have w: "takeWhile (radix_ok 10) ds = ds"
    using assms(2) by (simp add: takeWhile_eq_all_conv digit_radix_10)
  have v: "radix_val 10 ds = dec_val ds"
    using assms(2) by (simp add: radix_val_def dec_val_def radix_val_digits)
  show ?thesis
    using assms(1) x by (simp add: parseInt_def t s w v)
qed

lemma match_duration_at_digits:
  "match_duration_at s = Some (g1, g2) \<Longrightarrow>
   g1 \<noteq> [] \<and> (\<forall>c\<in>set g1. is_digit c) \<and> g2 \<noteq> [] \<and> (\<forall>c\<in>set g2. is_digit c)"
  by (auto simp: match_duration_at_def Let_def split: if_splits list.splits dest: set_takeWhileD)

lemma match_duration_digits:
  "match_duration s = Some (g1, g2) \<Longrightarrow>
   g1 \<noteq> [] \<and> (\<forall>c\<in>set g1. is_digit c) \<and> g2 \<noteq> [] \<and> (\<forall>c\<in>set g2. is_digit c)"
proof (induction s)
  case Nil
  then show ?case by simp
next
  case (Cons c cs)
  show ?case
  proof (cases "match_duration_at (c # cs)")
    case None
    with Cons show ?thesis by simp
  next
    case (Some g)
    with Cons.prems have "match_duration_at (c # cs) = Some (g1, g2)" by simp
    then show ?thesis by (rule match_duration_at_digits)
  qed
qed

lemma parseDuration_minutes:
  "parseDuration d =
     (case match_duration d of
        Some (g1, g2) \<Rightarrow> Fin (of_nat (dec_val g1 * 60 + dec_val g2))
      | None \<Rightarrow> Fin 0)"
proof (cases "match_duration d")
  case None
  then show ?thesis by (simp add: parseDuration_def)
next
  case (Some g)
  obtain g1 g2 where g: "g = (g1, g2)" by (cases g)
  from match_duration_digits[of d g1 g2] Some g
  have d: "g1 \<noteq> []" "\<forall>c\<in>set g1. is_digit c" "g2 \<noteq> []" "\<forall>c\<in>set g2. is_digit c" by auto
  show ?thesis
    using Some g d by (simp add: parseDuration_def parseInt_digits)
qed

lemma parseDuration_not_NaN: "parseDuration d \<noteq> NaN"
  by (simp add: parseDuration_minutes split: option.splits)

text \<open>
  Under \<^verbatim>\<open>cheapest\<close> and \<^verbatim>\<open>fastest\<close> the comparator is consistent on every filtered
  list (the price filter removes NaN prices, and parsed durations are numbers), so the
  result is the stable sort by price or by parsed duration.
\<close>

lemma cheapest_is_stable_sort:
  "getFilteredFlights flights filters Cheapest
     = sort_key (\<lambda>f. num_key (price f)) (apply_filters filters flights)"
proof (cases "flights = []")
  case True
  then show ?thesis by (simp add: getFilteredFlights_def apply_filters_filter)
next
  case False
  have "js_sort compare_cheapest (apply_filters filters flights)
          = sort_key (\<lambda>f. num_key (price f)) (apply_filters filters flights)"
    by (rule js_sort_key[where ok = "\<lambda>f. price f \<noteq> NaN"])
       (auto simp: compare_cheapest_def num_key_less not_le apply_filters_filter passes_price_not_NaN)
  with False show ?thesis by (simp add: getFilteredFlights_def)
qed

lemma fastest_is_stable_sort:
  "getFilteredFlights flights filters Fastest
     = sort_key (\<lambda>f. num_key (parseDuration (duration f))) (apply_filters filters flights)"
proof (cases "flights = []")
  case True
  then show ?thesis by (simp add: getFilteredFlights_def apply_filters_filter)
next
  case False
  have "js_sort compare_fastest (apply_filters filters flights)
          = sort_key (\<lambda>f. num_key (parseDuration (duration f))) (apply_filters filters flights)"
    by (rule js_sort_key[where ok = "\<lambda>f. True"])
       (auto simp: compare_fastest_def num_key_less not_le parseDuration_not_NaN)
  with False show ?thesis by (simp add: getFilteredFlights_def)
qed

lemma best_key_le_iff:
  "best_key a \<le> best_key b \<longleftrightarrow>
     (is_best a \<and> \<not> is_best b) \<or>
     (is_best a = is_best b \<and>
        ((js_eq (stops a) (Fin 0) \<and> \<not> js_eq (stops b) (Fin 0)) \<or>
         ((js_eq (stops a) (Fin 0) \<longleftrightarrow> js_eq (stops b) (Fin 0)) \<and> num_key (price a) \<le> num_key (price b))))"
  by (auto simp: best_key_def less_eq_prod_def)

text \<open>
  Claim C4, as stated: under the \<^verbatim>\<open>best\<close> option the filtered flights are ordered
  lexicographically by (best-flag, stop-count, price), a lower stop count before a higher
  one. The comparator only tells non-stop flights from flights with stops: a flight with
  one stop at 200 and a flight with two stops at 100, neither marked best, come out with
  the two-stop flight first, against the claimed order.
\<close>

theorem best_sort_ignores_stop_count_counterexample:
  "getFilteredFlights [flight_one_stop, flight_two_stops] defaultFilters Best
     = [flight_two_stops, flight_one_stop] \<and>
   claimed_key flight_one_stop < claimed_key flight_two_stops"
  by (simp add: getFilteredFlights_def apply_filters_def defaultFilters_def js_sort_def
      compare_best_def is_best_def flight_one_stop_def flight_two_stops_def claimed_key_def
      num_key_def js_ge_def js_le_def js_gt_def js_eq_def js_sub_def)

text \<open>
  Claim C4, amended: under the \<^verbatim>\<open>best\<close> option, for every flight list whose flights
  have \<open>stops \<ge> 0\<close> and for every filter state, the result is the filtered list
  rearranged (the same flights, the same number of times) in ascending order of
  \<open>best_key\<close>, the lexicographic order on (best-flag, non-stop-flag, price): flights
  marked best first, then non-stop flights before flights with stops, then ascending
  price; flights with equal keys keep their original relative order.
\<close>

theorem best_sort_order:
  assumes "\<forall>f\<in>set flights. js_ge (stops f) (Fin 0)"
  shows "sorted (map best_key (getFilteredFlights flights filters Best)) \<and>
         mset (getFilteredFlights flights filters Best) = mset (apply_filters filters flights) \<and>
         (\<forall>k. filter (\<lambda>f. best_key f = k) (getFilteredFlights flights filters Best)
               = filter (\<lambda>f. best_key f = k) (apply_filters filters flights))"
proof (cases "flights = []")
  case True
  then show ?thesis by (simp add: getFilteredFlights_def apply_filters_filter)
next
  case False
  have wf: "\<forall>x\<in>set (apply_filters filters flights). well_formed x"
    using assms by (auto simp: apply_filters_filter well_formed_def passes_price_not_NaN)
  have "getFilteredFlights flights filters Best = sort_key best_key (apply_filters filters flights)"
    using False by (simp add: getFilteredFlights_def js_sort_best_key[OF wf])
  then show ?thesis by (simp add: sort_key_stable)
qed

text \<open>The amended claim at the two flights above, in both input orders.\<close>

theorem best_sort_order_witness:
  "js_ge (stops flight_one_stop) (Fin 0) \<and> js_ge (stops flight_two_stops) (Fin 0) \<and>
   sorted (map best_key (getFilteredFlights [flight_one_stop, flight_two_stops] defaultFilters Best)) \<and>
   mset (getFilteredFlights [flight_one_stop, flight_two_stops] defaultFilters Best)
     = mset (apply_filters defaultFilters [flight_one_stop, flight_two_stops])"
proof -
  have h1: "js_ge (stops flight_one_stop) (Fin 0)"
    and h2: "js_ge (stops flight_two_stops) (Fin 0)"
    by (simp_all add: flight_one_stop_def flight_two_stops_def js_ge_def js_le_def)
  then have h: "\<forall>f\<in>set [flight_one_stop, flight_two_stops]. js_ge (stops f) (Fin 0)"
    by simp
  from h1 h2 best_sort_order[OF h, of defaultFilters] show ?thesis by blast
qed

section \<open>Filter/Sort Engine: idempotence\<close>

lemma getFilteredFlights_on_js_sort: "getFilteredFlights_on js_sort = getFilteredFlights"
  by (simp add: fun_eq_iff getFilteredFlights_on_def getFilteredFlights_def)






lemma agrees_subset: "agrees cmp key S \<Longrightarrow> T \<subseteq> S \<Longrightarrow> agrees cmp key T"
  by (auto simp: agrees_def)

lemma conforming_js_sort: "conforming js_sort"
  unfolding conforming_def
proof (intro allI impI)
  fix cmp :: "Flight \<Rightarrow> Flight \<Rightarrow> jsnum" and key :: "Flight \<Rightarrow> order_key" and xs
  assume a: "agrees cmp key (set xs)"
  show "js_sort cmp xs = sort_key key xs"
    by (rule js_sort_key[where ok = "\<lambda>f. f \<in> set xs"]) (use a in \<open>auto simp: agrees_def\<close>)
qed

















end
